theory Spec2Isabelle
  imports Main "HOL-Library.Word" "HOL-Library.List_Lexorder"
begin

unbundle bit_operations_syntax

section \<open>The ASI loader of dllmain.cpp\<close>

text \<open>
  The loader is a 32-bit Windows library. Everything it does is a call of the operating
  system, so the model makes two things explicit:
  \<^item> the answers of the operating system are the fields of a record \<open>os\<close>, one field per
    call the source makes (a result together with the thread's last-error value where the
    source reads \<open>GetLastError\<close> after the call);
  \<^item> the effects of the loader are the events it appends to a trace kept in the state,
    next to the three globals of the source.
  Handles, module bases and function pointers are 32-bit words, \<open>0\<close> is \<open>NULL\<close>.
  A wide string is the list of its UTF-16 code units before the terminating NUL, a narrow
  string the list of its bytes.

  The three functions of the source, \<open>AsiLoad\<close>, \<open>WaitForPlugins\<close> and \<open>DllMain\<close>,
  are state transformers. Their results are the constants \<open>0\<close>, \<open>1\<close> and \<open>TRUE\<close>
  and are left out. A plugin's code (its \<open>DllMain\<close> under \<open>LoadLibrary\<close>, its
  \<open>InitAsi\<close>) is opaque: calling it is an event of the trace.
\<close>

subsection \<open>Machine types and constants of the Windows headers\<close>

type_synonym WCHAR = "16 word"
type_synonym wstring = "WCHAR list"
type_synonym DWORD = "32 word"
type_synonym HMODULE = "32 word"
type_synonym HANDLE = "32 word"
type_synonym InitAsiCall = "32 word"

definition L :: "string \<Rightarrow> wstring" where
  "L s = map of_char s"

definition MAX_PATH :: nat where "MAX_PATH = 260"
definition FILE_ATTRIBUTE_DIRECTORY :: DWORD where "FILE_ATTRIBUTE_DIRECTORY = 0x10"
definition DLL_PROCESS_ATTACH :: DWORD where "DLL_PROCESS_ATTACH = 1"
definition WAIT_OBJECT_0 :: DWORD where "WAIT_OBJECT_0 = 0"
definition INFINITE :: DWORD where "INFINITE = 0xFFFFFFFF"
definition GET_MODULE_HANDLE_EX_FLAG_FROM_ADDRESS :: DWORD where
  "GET_MODULE_HANDLE_EX_FLAG_FROM_ADDRESS = 4"
definition MB_OK :: DWORD where "MB_OK = 0"
definition MB_ICONERROR :: DWORD where "MB_ICONERROR = 0x10"
definition MB_ICONEXCLAMATION :: DWORD where "MB_ICONEXCLAMATION = 0x30"
definition MB_SETFOREGROUND :: DWORD where "MB_SETFOREGROUND = 0x10000"
definition MB_TOPMOST :: DWORD where "MB_TOPMOST = 0x40000"

text \<open>The two macros of the source, and the size of the array \<open>filename\<close>:
  \<open>MAX_PATH + 1 + _countof(PLUGINDIR PLUGINFILTER)\<close>, the count including the NUL.\<close>

definition PLUGINFILTER :: wstring where
  "PLUGINFILTER = L ''*.asi''"

definition PLUGINDIR :: wstring where
  "PLUGINDIR = L ''plugins'' @ [0x5C]"

definition filename_size :: nat where
  "filename_size = MAX_PATH + 1 + (length (PLUGINDIR @ PLUGINFILTER) + 1)"

subsection \<open>Formatting\<close>

text \<open>Decimal and lower-case hexadecimal digits of a number, as \<open>%d\<close>,
  \<open>std::to_string\<close> and \<open>std::format("{:x}")\<close> print them.\<close>

definition digit_char :: "nat \<Rightarrow> char" where
  "digit_char d = ''0123456789abcdef'' ! d"

fun digits :: "nat \<Rightarrow> nat \<Rightarrow> string" where
  "digits b n =
     (if b < 2 \<or> n < b then [digit_char n] else digits b (n div b) @ [digit_char (n mod b)])"

declare digits.simps [simp del]

definition to_string :: "DWORD \<Rightarrow> string" where
  "to_string v = digits 10 (unat v)"

definition format_x :: "DWORD \<Rightarrow> string" where
  "format_x v = digits 16 (unat v)"

text \<open>\<open>%d\<close> reads its 32-bit argument as a signed \<open>int\<close>, although the source
  passes a \<open>DWORD\<close>.\<close>

definition printf_d :: "DWORD \<Rightarrow> string" where
  "printf_d v = (if sint v < 0 then CHR ''-'' # digits 10 (nat (- sint v)) else digits 10 (nat (sint v)))"

subsection \<open>The shell's wildcard match\<close>

text \<open>
  \<open>PathMatchSpec\<close> belongs to the Windows shell library \<open>shlwapi\<close>, not to this
  repository. It is modelled by its documented behaviour on one pattern: \<open>*\<close> matches any
  run of characters, \<open>?\<close> matches one character, every other character matches itself
  without regard to case. Case folding is the one of the ASCII letters.
\<close>

definition towupper :: "WCHAR \<Rightarrow> WCHAR" where
  "towupper c = (if 0x61 \<le> c \<and> c \<le> 0x7A then c - 0x20 else c)"

fun PathMatchSpec :: "wstring \<Rightarrow> wstring \<Rightarrow> bool" where
  "PathMatchSpec [] [] = True"
| "PathMatchSpec (c # cs) [] = False"
| "PathMatchSpec [] (m # ms) = (m = 0x2A \<and> PathMatchSpec [] ms)"
| "PathMatchSpec (c # cs) (m # ms) =
     (if m = 0x2A then PathMatchSpec (c # cs) ms \<or> PathMatchSpec cs (m # ms)
      else (m = 0x3F \<or> towupper m = towupper c) \<and> PathMatchSpec cs ms)"

subsection \<open>The operating system and the state of the loader\<close>

record WIN32_FIND_DATA =
  dwFileAttributes :: DWORD
  cFileName :: wstring

text \<open>
  The answers of the operating system.
  \<^item> \<open>module_handle\<close>: \<open>GetModuleHandle(NULL)\<close> and the last error after it;
  \<^item> \<open>module_file_name\<close>: the characters \<open>GetModuleFileName\<close> stores for a module
    (their number is its result) and the last error after it;
  \<^item> \<open>find_files\<close>: the entries of an enumeration; \<open>[]\<close> is \<open>FindFirstFile\<close>
    returning \<open>INVALID_HANDLE_VALUE\<close>, otherwise the head is the entry of
    \<open>FindFirstFile\<close> and the tail the entries of the calls of \<open>FindNextFile\<close> that
    succeed;
  \<^item> \<open>load_library\<close>: \<open>LoadLibrary\<close> of a path and the last error after it;
  \<^item> \<open>proc_address\<close>: \<open>GetProcAddress(hMod, "InitAsi")\<close>;
  \<^item> \<open>call_patch\<close>: whether \<open>hlib::CallPatch(address, target).patch()\<close> succeeds
    (the class is declared in \<open>hlib.h\<close>, outside the repository);
  \<^item> \<open>pin_module\<close>: \<open>GetModuleHandleExW\<close> by address: its result and the module;
  \<^item> \<open>create_thread\<close>: the handle \<open>CreateThread\<close> returns;
  \<^item> \<open>wait_status\<close>: the status \<open>WaitForSingleObject\<close> returns for a handle and the
    last error after it;
  \<^item> \<open>addr_AsiLoad\<close>, \<open>addr_WaitForPlugins\<close>: where the two functions are mapped.
\<close>

record os =
  module_handle :: "HMODULE \<times> DWORD"
  module_file_name :: "HMODULE \<Rightarrow> wstring \<times> DWORD"
  find_files :: "wstring \<Rightarrow> WIN32_FIND_DATA list"
  load_library :: "wstring \<Rightarrow> HMODULE \<times> DWORD"
  proc_address :: "HMODULE \<Rightarrow> InitAsiCall"
  call_patch :: "DWORD \<Rightarrow> DWORD \<Rightarrow> bool"
  pin_module :: "bool \<times> HMODULE"
  create_thread :: HANDLE
  wait_status :: "HANDLE \<Rightarrow> DWORD \<times> DWORD"
  addr_AsiLoad :: DWORD
  addr_WaitForPlugins :: DWORD

datatype event =
    MessageBoxW wstring wstring DWORD
  | MessageBoxA string string DWORD
  | ExitProcess DWORD
  | FindFirstFile wstring
  | FindClose
  | LoadLibrary wstring
  | InitAsi InitAsiCall
  | CallPatch DWORD DWORD
  | GetModuleHandleExW DWORD DWORD
  | CreateThread DWORD HMODULE
  | FreeLibrary HMODULE
  | WaitForSingleObject HANDLE DWORD

text \<open>
  A process runs until \<open>ExitProcess\<close> (\<open>Exited\<close>), until the C runtime's
  invalid-parameter handler stops it because \<open>wcscpy_s\<close> was given a string that does
  not fit (\<open>Aborted\<close>), or until the source reads outside an array (\<open>Undefined\<close>).
\<close>

datatype process_status = Running | Exited | Aborted | Undefined

record state =
  initialise_vectors :: "InitAsiCall list"
  loader_init_thread_handle :: HANDLE
  loader_init_thread_running :: bool
  trace :: "event list"
  status :: process_status

definition initial_state :: state where
  "initial_state = \<lparr>initialise_vectors = [], loader_init_thread_handle = 0,
     loader_init_thread_running = False, trace = [], status = Running\<rparr>"

definition emit :: "event list \<Rightarrow> state \<Rightarrow> state" where
  "emit es s = s\<lparr>trace := trace s @ es\<rparr>"

subsection \<open>AsiLoad\<close>

text \<open>The macro \<open>ERROR_BOX\<close>: a dialog with the last error, then \<open>ExitProcess(0)\<close>.\<close>

definition ERROR_BOX :: "wstring \<Rightarrow> DWORD \<Rightarrow> state \<Rightarrow> state" where
  "ERROR_BOX err last_error s =
     (emit [MessageBoxW (err @ L [CHR 0x0A, CHR 0x0A] @ L ''Error Code '' @ L (printf_d last_error) @ L ''.'')
              (L ''ASI LOADER ERROR'') (MB_ICONERROR OR MB_TOPMOST OR MB_SETFOREGROUND),
            ExitProcess 0] s)\<lparr>status := Exited\<rparr>"

text \<open>
  The loop \<open>for (--len; len >= 0; len--)\<close> walks down from the last character to the
  last backslash and returns the length of the directory, the backslash included. \<open>len\<close>
  is unsigned: without a backslash the loop leaves the array (\<open>None\<close>).
\<close>

fun find_dir_end :: "wstring \<Rightarrow> nat \<Rightarrow> nat option" where
  "find_dir_end filename 0 = (if filename ! 0 = 0x5C then Some 1 else None)"
| "find_dir_end filename (Suc i) =
     (if filename ! Suc i = 0x5C then Some (Suc (Suc i)) else find_dir_end filename i)"

text \<open>\<open>std::set<std::wstring>\<close>: the strings in ascending order of \<open>operator<\<close>, the
  lexicographic order of the code units, each once.\<close>

definition emplace :: "wstring \<Rightarrow> wstring list \<Rightarrow> wstring list" where
  "emplace x xs = (if x \<in> set xs then xs else insort x xs)"

text \<open>The body of the \<open>do ... while (FindNextFile(...))\<close> loop, and the loop.\<close>

definition accepts :: "WIN32_FIND_DATA \<Rightarrow> bool" where
  "accepts ffd \<longleftrightarrow>
     dwFileAttributes ffd AND FILE_ATTRIBUTE_DIRECTORY = 0 \<and> PathMatchSpec (cFileName ffd) PLUGINFILTER"

fun find_loop :: "WIN32_FIND_DATA list \<Rightarrow> wstring list \<Rightarrow> wstring list" where
  "find_loop [] plugins = plugins"
| "find_loop (ffd # ffds) plugins =
     (if dwFileAttributes ffd AND FILE_ATTRIBUTE_DIRECTORY \<noteq> 0 then find_loop ffds plugins
      else if \<not> PathMatchSpec (cFileName ffd) PLUGINFILTER then find_loop ffds plugins
      else find_loop ffds (emplace (cFileName ffd) plugins))"

text \<open>The loop \<open>for (auto& plugin : plugins)\<close>. \<open>dir\<close> is the content of \<open>filename\<close>
  up to \<open>pluginname\<close>. \<open>wcscpy_s\<close> copies a name only if the name and its NUL fit
  into the \<open>remainingLen\<close> elements left; otherwise the invalid-parameter handler of the
  C runtime ends the process.\<close>

definition load_failed_box :: "wstring \<Rightarrow> DWORD \<Rightarrow> event" where
  "load_failed_box filename last_error =
     MessageBoxW (L ''Cannot load plugin'' @ L [CHR 0x0A] @ filename @ L [CHR 0x0A, CHR 0x0A]
                    @ L ''Error Code '' @ L (printf_d last_error) @ L ''.'')
       (L ''ASI LOADER ERROR'') (MB_ICONEXCLAMATION OR MB_OK OR MB_TOPMOST OR MB_SETFOREGROUND)"

fun load_plugins :: "os \<Rightarrow> wstring \<Rightarrow> nat \<Rightarrow> wstring list \<Rightarrow> state \<Rightarrow> state" where
  "load_plugins os dir remainingLen [] s = s"
| "load_plugins os dir remainingLen (plugin # plugins) s =
     (if remainingLen \<le> length plugin then s\<lparr>status := Aborted\<rparr>
      else
        let filename = dir @ plugin;
            (hMod, last_error) = load_library os filename;
            s1 = emit [LoadLibrary filename] s
        in if hMod = 0 then
             load_plugins os dir remainingLen plugins (emit [load_failed_box filename last_error] s1)
           else
             let init = proc_address os hMod
             in if init \<noteq> 0 then
                  load_plugins os dir remainingLen plugins
                    (s1\<lparr>initialise_vectors := initialise_vectors s1 @ [init]\<rparr>)
                else load_plugins os dir remainingLen plugins s1)"

definition AsiLoad :: "os \<Rightarrow> HMODULE \<Rightarrow> state \<Rightarrow> state" where
  "AsiLoad os hModule s =
     (let (main, e_main) = module_handle os in
      if main = 0 then ERROR_BOX (L ''Cannot get module handle of your exe.'') e_main s
      else
        let (name, e_name) = module_file_name os main;
            filename = take MAX_PATH name;
            len = length filename
        in if len = 0 then ERROR_BOX (L ''Cannot get file name of your exe.'') e_name s
           else
             case find_dir_end filename (len - 1) of
               None \<Rightarrow> s\<lparr>status := Undefined\<rparr>
             | Some len1 \<Rightarrow>
                 let pattern = take len1 filename @ PLUGINDIR @ PLUGINFILTER;
                     len2 = len1 + length PLUGINDIR;
                     remainingLen = filename_size - len2;
                     dir = take len2 pattern;
                     s1 = emit [FindFirstFile pattern] s
                 in (case find_files os pattern of
                       [] \<Rightarrow> s1
                     | ffd # ffds \<Rightarrow>
                         load_plugins os dir remainingLen (find_loop (ffd # ffds) [])
                           (emit [FindClose] s1)))"

subsection \<open>WaitForPlugins\<close>

definition wait_failed_box :: "DWORD \<Rightarrow> DWORD \<Rightarrow> event" where
  "wait_failed_box st last_error =
     MessageBoxA (''Failed to wait for asi loader thread (status code: '' @ format_x st @ ''): ''
                    @ to_string last_error)
       ''ASI Loader - Error'' MB_OK"

definition not_initialized_box :: event where
  "not_initialized_box =
     MessageBoxA ''asi loader thread failed to correctly initialize'' ''ASI Loader - Error'' MB_OK"

definition WaitForPlugins :: "os \<Rightarrow> state \<Rightarrow> state" where
  "WaitForPlugins os s =
     (let s1 =
        (if loader_init_thread_handle s \<noteq> 0 then
           let (st, last_error) = wait_status os (loader_init_thread_handle s);
               s2 = emit [WaitForSingleObject (loader_init_thread_handle s) INFINITE] s;
               s3 = (if st \<noteq> WAIT_OBJECT_0 then emit [wait_failed_box st last_error] s2 else s2)
           in s3\<lparr>loader_init_thread_handle := 0\<rparr>
         else emit [not_initialized_box] s)
      in emit (map InitAsi (initialise_vectors s1)) s1)"

subsection \<open>DllMain\<close>

text \<open>The local \<open>mod\<close> of the source is \<open>mod_pinned\<close> here. The synchronous calls
  are \<open>AsiLoad(nullptr)\<close>; \<open>FreeLibrary\<close> follows the first one when it returns.\<close>

definition patch_failed_box :: event where
  "patch_failed_box =
     MessageBoxA ''Failed to patch the main function'' ''ASI Loader - Error'' MB_OK"

definition DllMain :: "os \<Rightarrow> HMODULE \<Rightarrow> DWORD \<Rightarrow> state \<Rightarrow> state" where
  "DllMain os hModule ul_reason_for_call s =
     (if ul_reason_for_call = DLL_PROCESS_ATTACH then
        let S4_Main = fst (module_handle os);
            s1 = emit [CallPatch (S4_Main + 0x5C489) (addr_WaitForPlugins os)] s;
            s2 = (if \<not> call_patch os (S4_Main + 0x5C489) (addr_WaitForPlugins os)
                  then emit [patch_failed_box] s1 else s1);
            (pinned, mod_pinned) = pin_module os;
            s3 = emit [GetModuleHandleExW GET_MODULE_HANDLE_EX_FLAG_FROM_ADDRESS (addr_AsiLoad os)] s2
        in if pinned then
             let s4 = (emit [CreateThread (addr_AsiLoad os) hModule] s3)
                        \<lparr>loader_init_thread_handle := create_thread os\<rparr>
             in if loader_init_thread_handle s4 = 0 then
                  let s5 = AsiLoad os 0 s4
                  in if status s5 = Running then emit [FreeLibrary mod_pinned] s5 else s5
                else s4
           else AsiLoad os 0 s3
      else s)"

subsection \<open>Vocabulary of the properties\<close>

text \<open>The callbacks a trace invokes, in the order of their calls.\<close>

definition invoked :: "event list \<Rightarrow> InitAsiCall list" where
  "invoked tr = concat (map (\<lambda>e. case e of InitAsi c \<Rightarrow> [c] | _ \<Rightarrow> []) tr)"

text \<open>The position of the first event of a kind in a trace (its length when there is none).\<close>

definition first_index :: "(event \<Rightarrow> bool) \<Rightarrow> event list \<Rightarrow> nat" where
  "first_index P tr = length (takeWhile (\<lambda>e. \<not> P e) tr)"

definition is_pin :: "event \<Rightarrow> bool" where
  "is_pin e = (case e of GetModuleHandleExW _ _ \<Rightarrow> True | _ \<Rightarrow> False)"

definition is_patch :: "event \<Rightarrow> bool" where
  "is_patch e = (case e of CallPatch _ _ \<Rightarrow> True | _ \<Rightarrow> False)"

definition is_create_thread :: "event \<Rightarrow> bool" where
  "is_create_thread e = (case e of CreateThread _ _ \<Rightarrow> True | _ \<Rightarrow> False)"

definition is_dialog :: "event \<Rightarrow> bool" where
  "is_dialog e = (case e of MessageBoxW _ _ _ \<Rightarrow> True | MessageBoxA _ _ _ \<Rightarrow> True | _ \<Rightarrow> False)"

text \<open>The steps of the entry shim in a trace: installing the patch, pinning the module,
  creating the worker.\<close>

definition entry_steps :: "event list \<Rightarrow> event list" where
  "entry_steps tr = filter (\<lambda>e. is_patch e \<or> is_pin e \<or> is_create_thread e) tr"

text \<open>
  The directory of the host executable, when \<open>AsiLoad\<close> gets as far as the enumeration:
  the module handle is not \<open>NULL\<close>, the file name is not empty and has a backslash.
\<close>

definition host_dir :: "os \<Rightarrow> wstring option" where
  "host_dir os =
     (let main = fst (module_handle os);
          filename = take MAX_PATH (fst (module_file_name os main))
      in if main = 0 \<or> filename = [] then None
         else map_option (\<lambda>n. take n filename) (find_dir_end filename (length filename - 1)))"

text \<open>The pattern handed to \<open>FindFirstFile\<close> and the names discovery keeps, in ascending
  order of the code units, each once.\<close>

definition search_pattern :: "wstring \<Rightarrow> wstring" where
  "search_pattern d = d @ PLUGINDIR @ PLUGINFILTER"

definition discovered :: "os \<Rightarrow> wstring \<Rightarrow> wstring list" where
  "discovered os d =
     sorted_list_of_set (set (map cFileName (filter accepts (find_files os (search_pattern d)))))"

text \<open>Every accepted name fits behind the plugin directory in the array \<open>filename\<close>, so
  that \<open>wcscpy_s\<close> succeeds.\<close>

definition fits :: "os \<Rightarrow> wstring \<Rightarrow> bool" where
  "fits os d \<longleftrightarrow>
     list_all (\<lambda>ffd. accepts ffd \<longrightarrow> length (d @ PLUGINDIR) + length (cFileName ffd) < filename_size)
       (find_files os (search_pattern d))"

text \<open>What one iteration of the loading loop appends to the trace and to the callback
  list, for the fully qualified name of a plugin.\<close>

definition plugin_events :: "os \<Rightarrow> wstring \<Rightarrow> event list" where
  "plugin_events os filename =
     (if fst (load_library os filename) = 0
      then [LoadLibrary filename, load_failed_box filename (snd (load_library os filename))]
      else [LoadLibrary filename])"

definition plugin_inits :: "os \<Rightarrow> wstring \<Rightarrow> InitAsiCall list" where
  "plugin_inits os filename =
     (if fst (load_library os filename) \<noteq> 0 \<and> proc_address os (fst (load_library os filename)) \<noteq> 0
      then [proc_address os (fst (load_library os filename))] else [])"

text \<open>
  One life of the loader in a process: \<open>DllMain\<close> at process attach; then the body of
  the worker thread, when one was created; then, when the patch was installed and the host
  reaches the patched call, the trigger, once. The worker has finished when the trigger
  runs, which is what the wait of the trigger establishes when it returns
  \<open>WAIT_OBJECT_0\<close>. A step is taken only while the process runs.
\<close>

definition process_run :: "os \<Rightarrow> HMODULE \<Rightarrow> state" where
  "process_run os hModule =
     (let s1 = DllMain os hModule DLL_PROCESS_ATTACH initial_state;
          s2 = (if status s1 = Running \<and> loader_init_thread_handle s1 \<noteq> 0
                then AsiLoad os hModule s1 else s1)
      in if status s2 = Running \<and>
            call_patch os (fst (module_handle os) + 0x5C489) (addr_WaitForPlugins os)
         then WaitForPlugins os s2 else s2)"

text \<open>The order the specification words: ascending, lexicographic, without regard to case.
  This definition follows the specification, not the source.\<close>

definition case_insensitive_order :: "wstring list \<Rightarrow> wstring list" where
  "case_insensitive_order names = sort_key (map towupper) names"

subsection \<open>An example installation\<close>

text \<open>
  The host is \<open>S4_Main.exe\<close> in the folder \<open>S4\<close> of drive \<open>C:\<close>. Its plugin directory holds \<open>a.asi\<close> and \<open>B.asi\<close>,
  which load and export \<open>InitAsi\<close>, \<open>broken.asi\<close>, which does not load (error 126),
  the file \<open>foo.asi.txt\<close> and the directory \<open>dir.asi\<close>.
\<close>

definition host_folder :: wstring where
  "host_folder = L ''C:'' @ [0x5C] @ L ''S4'' @ [0x5C]"

definition plugin_folder :: wstring where
  "plugin_folder = host_folder @ PLUGINDIR"

definition example_files :: "WIN32_FIND_DATA list" where
  "example_files =
     [\<lparr>dwFileAttributes = 0x20, cFileName = L ''a.asi''\<rparr>,
      \<lparr>dwFileAttributes = 0x20, cFileName = L ''B.asi''\<rparr>,
      \<lparr>dwFileAttributes = 0x20, cFileName = L ''foo.asi.txt''\<rparr>,
      \<lparr>dwFileAttributes = 0x10, cFileName = L ''dir.asi''\<rparr>,
      \<lparr>dwFileAttributes = 0x20, cFileName = L ''broken.asi''\<rparr>]"

definition example_os :: os where
  "example_os =
     \<lparr>module_handle = (0x400000, 0),
      module_file_name = (\<lambda>h. (host_folder @ L ''S4_Main.exe'', 0)),
      find_files = (\<lambda>p. if p = search_pattern host_folder then example_files else []),
      load_library = (\<lambda>p. if p = plugin_folder @ L ''a.asi'' then (0x10000000, 0)
                           else if p = plugin_folder @ L ''B.asi'' then (0x20000000, 0)
                           else (0, 126)),
      proc_address = (\<lambda>h. if h = 0x10000000 then 0x10001000
                           else if h = 0x20000000 then 0x20001000 else 0),
      call_patch = (\<lambda>a t. True),
      pin_module = (True, 0x30000000),
      create_thread = 0x77,
      wait_status = (\<lambda>h. (WAIT_OBJECT_0, 0)),
      addr_AsiLoad = 0x30001000,
      addr_WaitForPlugins = 0x30002000\<rparr>"

text \<open>The same installation when only \<open>a.asi\<close> loads: \<open>B.asi\<close>, the first plugin in
  the order of loading, fails like \<open>broken.asi\<close>.\<close>

definition failing_os :: os where
  "failing_os =
     example_os\<lparr>load_library :=
       \<lambda>p. if p = plugin_folder @ L ''a.asi'' then (0x10000000, 0) else (0, 126)\<rparr>"

section \<open>Lemmas\<close>

subsection \<open>Traces and their projections\<close>

lemma emit_simps [simp]:
  "trace (emit es s) = trace s @ es"
  "initialise_vectors (emit es s) = initialise_vectors s"
  "loader_init_thread_handle (emit es s) = loader_init_thread_handle s"
  "status (emit es s) = status s"
  by (simp_all add: emit_def)

lemma invoked_simps [simp]:
  "invoked [] = []"
  "invoked (tr1 @ tr2) = invoked tr1 @ invoked tr2"
  "invoked (map InitAsi cs) = cs"
  "invoked (InitAsi c # tr) = c # invoked tr"
  "invoked (MessageBoxW wt wc f # tr) = invoked tr"
  "invoked (MessageBoxA t' c' f # tr) = invoked tr"
  "invoked (ExitProcess x # tr) = invoked tr"
  "invoked (FindFirstFile p # tr) = invoked tr"
  "invoked (FindClose # tr) = invoked tr"
  "invoked (LoadLibrary p # tr) = invoked tr"
  "invoked (CallPatch a b # tr) = invoked tr"
  "invoked (GetModuleHandleExW a b # tr) = invoked tr"
  "invoked (CreateThread a b # tr) = invoked tr"
  "invoked (FreeLibrary m # tr) = invoked tr"
  "invoked (WaitForSingleObject hd' t # tr) = invoked tr"
  by (simp_all add: invoked_def) (induction cs, simp_all)

lemma box_invoked [simp]:
  "invoked (wait_failed_box st e # tr) = invoked tr"
  "invoked (not_initialized_box # tr) = invoked tr"
  "invoked (patch_failed_box # tr) = invoked tr"
  "invoked (load_failed_box f e # tr) = invoked tr"
  by (simp_all add: wait_failed_box_def not_initialized_box_def patch_failed_box_def load_failed_box_def)

lemma entry_steps_simps [simp]:
  "entry_steps [] = []"
  "entry_steps (tr1 @ tr2) = entry_steps tr1 @ entry_steps tr2"
  "entry_steps (CallPatch a t # tr) = CallPatch a t # entry_steps tr"
  "entry_steps (GetModuleHandleExW fl ad # tr) = GetModuleHandleExW fl ad # entry_steps tr"
  "entry_steps (CreateThread st pa # tr) = CreateThread st pa # entry_steps tr"
  "entry_steps (MessageBoxW wt wc f # tr) = entry_steps tr"
  "entry_steps (MessageBoxA t' c' f # tr) = entry_steps tr"
  "entry_steps (ExitProcess x # tr) = entry_steps tr"
  "entry_steps (FindFirstFile p # tr) = entry_steps tr"
  "entry_steps (FindClose # tr) = entry_steps tr"
  "entry_steps (LoadLibrary p # tr) = entry_steps tr"
  "entry_steps (FreeLibrary m # tr) = entry_steps tr"
  "entry_steps (patch_failed_box # tr) = entry_steps tr"
  "entry_steps (load_failed_box fn e # tr) = entry_steps tr"
  by (simp_all add: entry_steps_def is_patch_def is_pin_def is_create_thread_def
        patch_failed_box_def load_failed_box_def)

lemma initial_state_fields [simp]:
  "initialise_vectors initial_state = []"
  "loader_init_thread_handle initial_state = 0"
  "trace initial_state = []"
  "status initial_state = Running"
  by (simp_all add: initial_state_def)

subsection \<open>The set of plugins\<close>

lemma set_emplace [simp]: "set (emplace x xs) = insert x (set xs)"
  by (auto simp: emplace_def set_insort_key)

lemma sorted_emplace: "sorted xs \<Longrightarrow> sorted (emplace x xs)"
  by (simp add: emplace_def sorted_insort)

lemma distinct_emplace: "distinct xs \<Longrightarrow> distinct (emplace x xs)"
  by (simp add: emplace_def distinct_insort)

lemma set_find_loop:
  "set (find_loop ffds plugins) = set plugins \<union> set (map cFileName (filter accepts ffds))"
  by (induction ffds arbitrary: plugins) (auto simp: accepts_def)

lemma sorted_find_loop: "sorted plugins \<Longrightarrow> sorted (find_loop ffds plugins)"
  by (induction ffds arbitrary: plugins) (auto simp: sorted_emplace)

lemma distinct_find_loop: "distinct plugins \<Longrightarrow> distinct (find_loop ffds plugins)"
  by (induction ffds arbitrary: plugins) (auto simp: distinct_emplace)

lemma find_loop_sorted_list:
  "find_loop ffds [] = sorted_list_of_set (set (map cFileName (filter accepts ffds)))"
proof (rule sorted_distinct_set_unique)
  show "sorted (find_loop ffds [])" by (simp add: sorted_find_loop)
  show "distinct (find_loop ffds [])" by (simp add: distinct_find_loop)
  show "set (find_loop ffds []) = set (sorted_list_of_set (set (map cFileName (filter accepts ffds))))"
    by (simp add: set_find_loop)
qed simp_all

lemma set_find_loop_accepts:
  "set (find_loop ffds []) =
     cFileName ` {ffd \<in> set ffds. dwFileAttributes ffd AND FILE_ATTRIBUTE_DIRECTORY = 0 \<and>
                    PathMatchSpec (cFileName ffd) PLUGINFILTER}"
  by (auto simp: set_find_loop accepts_def)

lemma discovered_props:
  "sorted (discovered os d) \<and> distinct (discovered os d)
   \<and> set (discovered os d) = cFileName ` {ffd \<in> set (find_files os (search_pattern d)). accepts ffd}"
  by (auto simp: discovered_def)

lemma discovered_none:
  "filter accepts (find_files os (search_pattern d)) = [] \<Longrightarrow> discovered os d = []"
  by (simp add: discovered_def)

lemma fits_none:
  "filter accepts (find_files os (search_pattern d)) = [] \<Longrightarrow> fits os d"
  by (auto simp: fits_def list_all_iff filter_empty_conv)

lemma fits_plugins:
  assumes "fits os d"
  shows "\<forall>p \<in> set (find_loop (find_files os (search_pattern d)) []).
           length p < filename_size - length (d @ PLUGINDIR)"
  using assms by (auto simp: fits_def list_all_iff set_find_loop)

text \<open>The order of \<open>std::wstring\<close>, which the list order models: code units compare as
  unsigned numbers, the first difference decides, a proper prefix comes first.\<close>

lemma wstring_order:
  "((a # x :: wstring) < b # y) = (unat a < unat b \<or> a = b \<and> x < y)"
  "([] :: wstring) < b # y"
  "\<not> (x :: wstring) < []"
  by (simp_all add: word_less_nat_alt)

subsection \<open>The wildcard match\<close>

text \<open>What the match against \<open>*.asi\<close> means: the name ends with \<open>.asi\<close>, in any
  mix of upper and lower case.\<close>

lemma PathMatchSpec_star:
  "PathMatchSpec name (0x2A # spec) = (\<exists>k \<le> length name. PathMatchSpec (drop k name) spec)"
proof (induction name)
  case Nil
  show ?case by simp
next
  case (Cons c cs)
  have "(\<exists>k \<le> length (c # cs). PathMatchSpec (drop k (c # cs)) spec) =
      (PathMatchSpec (c # cs) spec \<or> (\<exists>k \<le> length cs. PathMatchSpec (drop k cs) spec))"
  proof
    assume "\<exists>k \<le> length (c # cs). PathMatchSpec (drop k (c # cs)) spec"
    then obtain k where k: "k \<le> length (c # cs)" "PathMatchSpec (drop k (c # cs)) spec" by blast
    show "PathMatchSpec (c # cs) spec \<or> (\<exists>k \<le> length cs. PathMatchSpec (drop k cs) spec)"
    proof (cases k)
      case 0
      with k show ?thesis by simp
    next
      case (Suc j)
      with k have "j \<le> length cs \<and> PathMatchSpec (drop j cs) spec" by simp
      then show ?thesis by blast
    qed
  next
    assume "PathMatchSpec (c # cs) spec \<or> (\<exists>k \<le> length cs. PathMatchSpec (drop k cs) spec)"
    then show "\<exists>k \<le> length (c # cs). PathMatchSpec (drop k (c # cs)) spec"
    proof
      assume "PathMatchSpec (c # cs) spec"
      then have "0 \<le> length (c # cs) \<and> PathMatchSpec (drop 0 (c # cs)) spec" by simp
      then show ?thesis by blast
    next
      assume "\<exists>k \<le> length cs. PathMatchSpec (drop k cs) spec"
      then obtain k where "k \<le> length cs" "PathMatchSpec (drop k cs) spec" by blast
      then have "Suc k \<le> length (c # cs) \<and> PathMatchSpec (drop (Suc k) (c # cs)) spec" by simp
      then show ?thesis by blast
    qed
  qed
  then show ?case by (simp add: Cons.IH)
qed

lemma PathMatchSpec_literal:
  "0x2A \<notin> set spec \<Longrightarrow> 0x3F \<notin> set spec \<Longrightarrow>
   PathMatchSpec name spec = (map towupper name = map towupper spec)"
proof (induction spec arbitrary: name)
  case Nil
  show ?case by (cases name) simp_all
next
  case (Cons m ms)
  then show ?case by (cases name) auto
qed

lemma PathMatchSpec_asi:
  "PathMatchSpec name PLUGINFILTER =
     (4 \<le> length name \<and> map towupper (drop (length name - 4) name) = L ''.ASI'')"
proof -
  have asi: "L ''.asi'' = [0x2E, 0x61, 0x73, 0x69]" and ASI: "L ''.ASI'' = [0x2E, 0x41, 0x53, 0x49]"
    by (simp_all add: L_def)
  have pattern: "PLUGINFILTER = 0x2A # L ''.asi''"
    by (simp add: PLUGINFILTER_def L_def)
  have lit: "\<And>x. PathMatchSpec x (L ''.asi'') = (map towupper x = L ''.ASI'')"
    using PathMatchSpec_literal [of "L ''.asi''"] by (simp add: asi ASI towupper_def)
  have "PathMatchSpec name PLUGINFILTER = (\<exists>k \<le> length name. map towupper (drop k name) = L ''.ASI'')"
    unfolding pattern PathMatchSpec_star lit ..
  also have "\<dots> = (4 \<le> length name \<and> map towupper (drop (length name - 4) name) = L ''.ASI'')"
  proof
    assume "\<exists>k \<le> length name. map towupper (drop k name) = L ''.ASI''"
    then obtain k where k: "k \<le> length name" "map towupper (drop k name) = L ''.ASI''" by blast
    from k(2) have "length (map towupper (drop k name)) = 4" by (simp add: L_def)
    then have "length name - k = 4" by simp
    with k(1) have "4 \<le> length name" "k = length name - 4" by simp_all
    with k(2) show "4 \<le> length name \<and> map towupper (drop (length name - 4) name) = L ''.ASI''"
      by simp
  next
    assume "4 \<le> length name \<and> map towupper (drop (length name - 4) name) = L ''.ASI''"
    then have "length name - 4 \<le> length name \<and> map towupper (drop (length name - 4) name) = L ''.ASI''"
      by simp
    then show "\<exists>k \<le> length name. map towupper (drop k name) = L ''.ASI''" by blast
  qed
  finally show ?thesis .
qed

lemma foo_asi_txt: "\<not> PathMatchSpec (L ''foo.asi.txt'') PLUGINFILTER"
  by (simp add: L_def PLUGINFILTER_def towupper_def)

subsection \<open>The loading loop\<close>

lemma plugin_inits_length: "length (plugin_inits os filename) \<le> 1"
  by (simp add: plugin_inits_def)

lemma load_plugins_fit:
  "\<forall>p \<in> set plugins. length p < remainingLen \<Longrightarrow>
   load_plugins os dir remainingLen plugins s =
     s\<lparr>initialise_vectors := initialise_vectors s @ concat (map (\<lambda>p. plugin_inits os (dir @ p)) plugins),
       trace := trace s @ concat (map (\<lambda>p. plugin_events os (dir @ p)) plugins)\<rparr>"
proof (induction plugins arbitrary: s)
  case Nil
  show ?case by simp
next
  case (Cons p ps)
  then have fit: "\<not> remainingLen \<le> length p" and rest: "\<forall>q \<in> set ps. length q < remainingLen"
    by auto
  show ?case
    by (cases "load_library os (dir @ p)")
      (simp add: fit Cons.IH [OF rest] plugin_inits_def plugin_events_def emit_def Let_def)
qed

lemma load_plugins_failure:
  assumes "fst (load_library os (dir @ plugin)) = 0" and "length plugin < remainingLen"
  shows "load_plugins os dir remainingLen (plugin # plugins) s =
     load_plugins os dir remainingLen plugins
       (emit [LoadLibrary (dir @ plugin),
              load_failed_box (dir @ plugin) (snd (load_library os (dir @ plugin)))] s)"
  using assms by (cases "load_library os (dir @ plugin)") (simp add: emit_def Let_def)

lemma load_plugins_invoked: "invoked (trace (load_plugins os dir r plugins s)) = invoked (trace s)"
proof (induction plugins arbitrary: s)
  case Nil
  show ?case by simp
next
  case (Cons p ps)
  show ?case
    by (cases "load_library os (dir @ p)") (simp add: Cons.IH Let_def load_failed_box_def)
qed

lemma load_plugins_handle:
  "loader_init_thread_handle (load_plugins os dir r plugins s) = loader_init_thread_handle s"
proof (induction plugins arbitrary: s)
  case Nil
  show ?case by simp
next
  case (Cons p ps)
  show ?case
    by (cases "load_library os (dir @ p)") (simp add: Cons.IH Let_def)
qed

lemma load_plugins_extends:
  "\<exists>es. trace (load_plugins os dir r plugins s) = trace s @ es \<and> entry_steps es = []"
proof (induction plugins arbitrary: s)
  case Nil
  show ?case by simp
next
  case (Cons p ps)
  show ?case
  proof (cases "r \<le> length p")
    case True
    then show ?thesis by simp
  next
    case False
    obtain hMod e where ll: "load_library os (dir @ p) = (hMod, e)"
      by (cases "load_library os (dir @ p)")
    let ?s1 = "emit [LoadLibrary (dir @ p)] s"
    let ?next = "if hMod = 0 then emit [load_failed_box (dir @ p) e] ?s1
       else if proc_address os hMod \<noteq> 0
         then ?s1\<lparr>initialise_vectors := initialise_vectors ?s1 @ [proc_address os hMod]\<rparr>
         else ?s1"
    have step: "load_plugins os dir r (p # ps) s = load_plugins os dir r ps ?next"
      using False by (simp add: ll Let_def)
    obtain es where es: "trace (load_plugins os dir r ps ?next) = trace ?next @ es"
      and none: "entry_steps es = []"
      using Cons.IH [of ?next] by blast
    have "\<exists>es0. trace ?next = trace s @ es0 \<and> entry_steps es0 = []"
      by (cases "hMod = 0") (auto simp: emit_def)
    then obtain es0 where es0: "trace ?next = trace s @ es0" and none0: "entry_steps es0 = []"
      by blast
    have "trace (load_plugins os dir r (p # ps) s) = trace s @ (es0 @ es)"
      by (simp only: step es es0 append_assoc)
    moreover have "entry_steps (es0 @ es) = []"
      by (simp add: none none0)
    ultimately show ?thesis by blast
  qed
qed

lemma load_plugins_loads:
  "LoadLibrary p \<in> set (trace (load_plugins os dir r plugins s)) \<Longrightarrow>
   LoadLibrary p \<in> set (trace s) \<or> (\<exists>n \<in> set plugins. p = dir @ n)"
proof (induction plugins arbitrary: s)
  case Nil
  then show ?case by simp
next
  case (Cons q qs)
  show ?case
  proof (cases "r \<le> length q")
    case True
    with Cons.prems show ?thesis by simp
  next
    case False
    obtain hMod e where ll: "load_library os (dir @ q) = (hMod, e)"
      by (cases "load_library os (dir @ q)")
    let ?s1 = "emit [LoadLibrary (dir @ q)] s"
    let ?next = "if hMod = 0 then emit [load_failed_box (dir @ q) e] ?s1
       else if proc_address os hMod \<noteq> 0
         then ?s1\<lparr>initialise_vectors := initialise_vectors ?s1 @ [proc_address os hMod]\<rparr>
         else ?s1"
    have step: "load_plugins os dir r (q # qs) s = load_plugins os dir r qs ?next"
      using False by (simp add: ll Let_def)
    from Cons.prems have "LoadLibrary p \<in> set (trace (load_plugins os dir r qs ?next))"
      by (simp only: step)
    from Cons.IH [OF this]
    have "LoadLibrary p \<in> set (trace ?next) \<or> (\<exists>n \<in> set qs. p = dir @ n)" .
    moreover have "LoadLibrary p \<in> set (trace ?next) \<Longrightarrow>
        LoadLibrary p \<in> set (trace s) \<or> p = dir @ q"
      by (auto simp: load_failed_box_def split: if_splits)
    ultimately show ?thesis by auto
  qed
qed

subsection \<open>AsiLoad\<close>

lemma find_dir_end_le: "find_dir_end filename i = Some n \<Longrightarrow> n \<le> Suc i"
  by (induction i) (auto split: if_splits)

lemma ERROR_BOX_simps [simp]:
  "invoked (trace (ERROR_BOX err e s)) = invoked (trace s)"
  "loader_init_thread_handle (ERROR_BOX err e s) = loader_init_thread_handle s"
  "initialise_vectors (ERROR_BOX err e s) = initialise_vectors s"
  "status (ERROR_BOX err e s) = Exited"
  by (simp_all add: ERROR_BOX_def)

lemma AsiLoad_host_dir:
  assumes "host_dir os = Some d"
  shows "AsiLoad os hModule s =
     (case find_files os (search_pattern d) of
        [] \<Rightarrow> emit [FindFirstFile (search_pattern d)] s
      | ffd # ffds \<Rightarrow>
          load_plugins os (d @ PLUGINDIR) (filename_size - length (d @ PLUGINDIR))
            (find_loop (ffd # ffds) [])
            (emit [FindFirstFile (search_pattern d), FindClose] s))"
proof -
  obtain filename where fn: "take MAX_PATH (fst (module_file_name os (fst (module_handle os)))) = filename"
    by simp
  from assms obtain n where main: "fst (module_handle os) \<noteq> 0" and ne: "filename \<noteq> []"
    and n: "find_dir_end filename (length filename - 1) = Some n" and d: "d = take n filename"
    unfolding host_dir_def Let_def fn by (auto split: if_splits)
  from find_dir_end_le [OF n] ne have "n \<le> length filename"
    by (cases filename) auto
  then have len: "length d = n" by (simp add: d)
  have dir: "take (n + length PLUGINDIR) (d @ PLUGINDIR @ PLUGINFILTER) = d @ PLUGINDIR"
    by (simp add: len)
  have emit2: "emit [FindClose] (emit [FindFirstFile (d @ PLUGINDIR @ PLUGINFILTER)] s) =
      emit [FindFirstFile (d @ PLUGINDIR @ PLUGINFILTER), FindClose] s"
    by (simp add: emit_def)
  have size: "filename_size - (n + length PLUGINDIR) = filename_size - length (d @ PLUGINDIR)"
    by (simp add: len)
  have "AsiLoad os hModule s =
     (case find_files os (take n filename @ PLUGINDIR @ PLUGINFILTER) of
        [] \<Rightarrow> emit [FindFirstFile (take n filename @ PLUGINDIR @ PLUGINFILTER)] s
      | ffd # ffds \<Rightarrow>
          load_plugins os (take (n + length PLUGINDIR) (take n filename @ PLUGINDIR @ PLUGINFILTER))
            (filename_size - (n + length PLUGINDIR)) (find_loop (ffd # ffds) [])
            (emit [FindClose] (emit [FindFirstFile (take n filename @ PLUGINDIR @ PLUGINFILTER)] s)))"
    unfolding AsiLoad_def Let_def split_beta fn
    by (simp only: main ne n if_False length_0_conv option.case)
  then show ?thesis
    unfolding d [symmetric] dir emit2 size search_pattern_def .
qed

lemma AsiLoad_no_host_dir:
  assumes "host_dir os = None" and "LoadLibrary p \<in> set (trace (AsiLoad os hModule s))"
  shows "LoadLibrary p \<in> set (trace s)"
  using assms unfolding AsiLoad_def host_dir_def Let_def split_beta
  by (auto simp: ERROR_BOX_def simp del: find_loop.simps split: if_splits option.splits)

lemma AsiLoad_invoked: "invoked (trace (AsiLoad os hModule s)) = invoked (trace s)"
  by (simp add: AsiLoad_def Let_def split_beta load_plugins_invoked split: option.splits list.splits)

lemma AsiLoad_handle: "loader_init_thread_handle (AsiLoad os hModule s) = loader_init_thread_handle s"
  by (simp add: AsiLoad_def Let_def split_beta load_plugins_handle split: option.splits list.splits)

lemma AsiLoad_extends:
  "\<exists>es. trace (AsiLoad os hModule s) = trace s @ es \<and> entry_steps es = []"
proof -
  have lp: "\<And>dir r ps t. \<exists>es. trace (load_plugins os dir r ps (emit [FindClose] (emit [FindFirstFile t] s)))
      = trace s @ es \<and> entry_steps es = []"
  proof -
    fix dir r ps t
    obtain es where "trace (load_plugins os dir r ps (emit [FindClose] (emit [FindFirstFile t] s)))
        = trace (emit [FindClose] (emit [FindFirstFile t] s)) @ es" and "entry_steps es = []"
      using load_plugins_extends by blast
    then have "trace (load_plugins os dir r ps (emit [FindClose] (emit [FindFirstFile t] s)))
        = trace s @ ([FindFirstFile t, FindClose] @ es) \<and> entry_steps ([FindFirstFile t, FindClose] @ es) = []"
      by simp
    then show "\<exists>es. trace (load_plugins os dir r ps (emit [FindClose] (emit [FindFirstFile t] s)))
      = trace s @ es \<and> entry_steps es = []" by blast
  qed
  have eb: "\<And>err e. \<exists>es. trace (ERROR_BOX err e s) = trace s @ es \<and> entry_steps es = []"
    by (simp add: ERROR_BOX_def)
  show ?thesis
    unfolding AsiLoad_def Let_def split_beta
    by (simp add: lp eb del: find_loop.simps split: option.splits list.splits)
qed

lemma AsiLoad_entry_steps: "entry_steps (trace (AsiLoad os hModule s)) = entry_steps (trace s)"
  using AsiLoad_extends [of os hModule s] by auto

lemma AsiLoad_loads:
  assumes "LoadLibrary p \<in> set (trace (AsiLoad os hModule s))"
  shows "LoadLibrary p \<in> set (trace s) \<or>
     (\<exists>d. host_dir os = Some d \<and>
        (\<exists>ffd \<in> set (find_files os (search_pattern d)).
           dwFileAttributes ffd AND FILE_ATTRIBUTE_DIRECTORY = 0 \<and>
           PathMatchSpec (cFileName ffd) PLUGINFILTER \<and> p = d @ PLUGINDIR @ cFileName ffd))"
proof (cases "host_dir os")
  case None
  from AsiLoad_no_host_dir [OF None assms] show ?thesis ..
next
  case (Some d)
  show ?thesis
  proof (cases "find_files os (search_pattern d)")
    case Nil
    with assms show ?thesis
      by (simp add: AsiLoad_host_dir [OF Some])
  next
    case (Cons ffd ffds)
    from assms have "LoadLibrary p \<in> set (trace (load_plugins os (d @ PLUGINDIR)
        (filename_size - length (d @ PLUGINDIR)) (find_loop (ffd # ffds) [])
        (emit [FindFirstFile (search_pattern d), FindClose] s)))"
      unfolding AsiLoad_host_dir [OF Some] Cons list.case .
    from load_plugins_loads [OF this]
    have "LoadLibrary p \<in> set (trace s) \<or> (\<exists>n \<in> set (find_loop (ffd # ffds) []). p = (d @ PLUGINDIR) @ n)"
      by simp
    then show ?thesis
      unfolding set_find_loop_accepts Cons [symmetric] using Some by auto
  qed
qed

lemma AsiLoad_fits:
  assumes "host_dir os = Some d" and "fits os d"
  shows "AsiLoad os hModule s =
     s\<lparr>initialise_vectors := initialise_vectors s @
          concat (map (\<lambda>p. plugin_inits os (d @ PLUGINDIR @ p)) (discovered os d)),
       trace := trace s @ FindFirstFile (search_pattern d) #
          (if find_files os (search_pattern d) = [] then []
           else FindClose # concat (map (\<lambda>p. plugin_events os (d @ PLUGINDIR @ p)) (discovered os d)))\<rparr>"
proof (cases "find_files os (search_pattern d)")
  case Nil
  then show ?thesis
    by (simp add: AsiLoad_host_dir [OF assms(1)] discovered_def emit_def)
next
  case (Cons ffd ffds)
  have fit: "\<forall>p \<in> set (find_loop (ffd # ffds) []). length p < filename_size - length (d @ PLUGINDIR)"
    using fits_plugins [OF assms(2)] Cons by simp
  show ?thesis
    unfolding AsiLoad_host_dir [OF assms(1)] Cons list.case load_plugins_fit [OF fit]
    by (simp add: discovered_def Cons find_loop_sorted_list emit_def del: find_loop.simps)
qed

lemma AsiLoad_status:
  assumes "host_dir os = Some d" and "fits os d"
  shows "status (AsiLoad os hModule s) = status s"
  by (simp add: AsiLoad_fits [OF assms])

lemma AsiLoad_inits:
  assumes "host_dir os = Some d" and "fits os d"
  shows "initialise_vectors (AsiLoad os hModule s) =
     initialise_vectors s @ concat (map (\<lambda>p. plugin_inits os (d @ PLUGINDIR @ p)) (discovered os d))"
  by (simp add: AsiLoad_fits [OF assms])

subsection \<open>WaitForPlugins\<close>

lemma WaitForPlugins_trace:
  "trace (WaitForPlugins os s) =
     trace s @
     (if loader_init_thread_handle s \<noteq> 0 then
        WaitForSingleObject (loader_init_thread_handle s) INFINITE #
        (if fst (wait_status os (loader_init_thread_handle s)) \<noteq> WAIT_OBJECT_0
         then [wait_failed_box (fst (wait_status os (loader_init_thread_handle s)))
                 (snd (wait_status os (loader_init_thread_handle s)))]
         else [])
      else [not_initialized_box]) @
     map InitAsi (initialise_vectors s)"
  by (simp add: WaitForPlugins_def Let_def split_beta)

lemma WaitForPlugins_fields [simp]:
  "initialise_vectors (WaitForPlugins os s) = initialise_vectors s"
  "loader_init_thread_handle (WaitForPlugins os s) = 0"
  "status (WaitForPlugins os s) = status s"
  by (simp_all add: WaitForPlugins_def Let_def split_beta)

lemma WaitForPlugins_invoked:
  "invoked (trace (WaitForPlugins os s)) = invoked (trace s) @ initialise_vectors s"
  by (simp add: WaitForPlugins_trace)

lemma second_firing_invokes_again:
  "invoked (trace (WaitForPlugins os (WaitForPlugins os s))) =
     invoked (trace s) @ initialise_vectors s @ initialise_vectors s"
  by (simp add: WaitForPlugins_invoked)

subsection \<open>DllMain and one life of the loader\<close>

lemma DllMain_attach:
  "DllMain os hModule DLL_PROCESS_ATTACH s =
     (let s3 = emit (CallPatch (fst (module_handle os) + 0x5C489) (addr_WaitForPlugins os) #
                  (if call_patch os (fst (module_handle os) + 0x5C489) (addr_WaitForPlugins os)
                   then [] else [patch_failed_box]) @
                  [GetModuleHandleExW GET_MODULE_HANDLE_EX_FLAG_FROM_ADDRESS (addr_AsiLoad os)]) s
      in if fst (pin_module os) then
           if create_thread os = 0 then
             let s5 = AsiLoad os 0 ((emit [CreateThread (addr_AsiLoad os) hModule] s3)
                        \<lparr>loader_init_thread_handle := 0\<rparr>)
             in if status s5 = Running then emit [FreeLibrary (snd (pin_module os))] s5 else s5
           else (emit [CreateThread (addr_AsiLoad os) hModule] s3)
                  \<lparr>loader_init_thread_handle := create_thread os\<rparr>
         else AsiLoad os 0 s3)"
  by (simp add: DllMain_def Let_def split_beta emit_def)

lemma DllMain_invoked: "invoked (trace (DllMain os hModule reason s)) = invoked (trace s)"
  by (simp add: DllMain_def Let_def split_beta AsiLoad_invoked)

lemma DllMain_degraded_handle:
  "fst (pin_module os) \<Longrightarrow> create_thread os = 0 \<Longrightarrow>
   loader_init_thread_handle (DllMain os hModule DLL_PROCESS_ATTACH s) = 0"
  by (simp add: DllMain_def Let_def split_beta AsiLoad_handle)

lemma DllMain_entry_steps:
  "entry_steps (trace (DllMain os hModule DLL_PROCESS_ATTACH s)) =
     entry_steps (trace s) @
     [CallPatch (fst (module_handle os) + 0x5C489) (addr_WaitForPlugins os),
      GetModuleHandleExW GET_MODULE_HANDLE_EX_FLAG_FROM_ADDRESS (addr_AsiLoad os)] @
     (if fst (pin_module os) then [CreateThread (addr_AsiLoad os) hModule] else [])"
  by (simp add: DllMain_attach Let_def AsiLoad_entry_steps)

lemma DllMain_prefix:
  "\<exists>rest. trace (DllMain os hModule DLL_PROCESS_ATTACH s) =
     trace s @
     CallPatch (fst (module_handle os) + 0x5C489) (addr_WaitForPlugins os) #
     (if call_patch os (fst (module_handle os) + 0x5C489) (addr_WaitForPlugins os)
      then [] else [patch_failed_box]) @
     GetModuleHandleExW GET_MODULE_HANDLE_EX_FLAG_FROM_ADDRESS (addr_AsiLoad os) #
     (if fst (pin_module os) then [CreateThread (addr_AsiLoad os) hModule] else []) @ rest"
proof -
  have ext: "\<And>t. \<exists>es. trace (AsiLoad os 0 t) = trace t @ es"
    using AsiLoad_extends by blast
  show ?thesis
  proof (cases "fst (pin_module os)")
    case False
    obtain es where "trace (AsiLoad os 0 (emit (CallPatch (fst (module_handle os) + 0x5C489) (addr_WaitForPlugins os) #
                  (if call_patch os (fst (module_handle os) + 0x5C489) (addr_WaitForPlugins os)
                   then [] else [patch_failed_box]) @
                  [GetModuleHandleExW GET_MODULE_HANDLE_EX_FLAG_FROM_ADDRESS (addr_AsiLoad os)]) s)) =
       trace (emit (CallPatch (fst (module_handle os) + 0x5C489) (addr_WaitForPlugins os) #
                  (if call_patch os (fst (module_handle os) + 0x5C489) (addr_WaitForPlugins os)
                   then [] else [patch_failed_box]) @
                  [GetModuleHandleExW GET_MODULE_HANDLE_EX_FLAG_FROM_ADDRESS (addr_AsiLoad os)]) s) @ es"
      using ext by blast
    with False show ?thesis
      by (simp add: DllMain_attach Let_def)
  next
    case True
    show ?thesis
    proof (cases "create_thread os = 0")
      case False
      with True show ?thesis by (simp add: DllMain_attach Let_def)
    next
      case z: True
      let ?s4 = "(emit [CreateThread (addr_AsiLoad os) hModule]
         (emit (CallPatch (fst (module_handle os) + 0x5C489) (addr_WaitForPlugins os) #
                  (if call_patch os (fst (module_handle os) + 0x5C489) (addr_WaitForPlugins os)
                   then [] else [patch_failed_box]) @
                  [GetModuleHandleExW GET_MODULE_HANDLE_EX_FLAG_FROM_ADDRESS (addr_AsiLoad os)]) s))
          \<lparr>loader_init_thread_handle := 0\<rparr>"
      obtain es where es: "trace (AsiLoad os 0 ?s4) = trace ?s4 @ es"
        using ext by blast
      show ?thesis
        using True z es by (simp add: DllMain_attach Let_def)
    qed
  qed
qed

lemma DllMain_attach_fits:
  assumes "host_dir os = Some d" and "fits os d" and "status s = Running"
  shows "status (DllMain os hModule DLL_PROCESS_ATTACH s) = Running
    \<and> initialise_vectors (DllMain os hModule DLL_PROCESS_ATTACH s) =
        initialise_vectors s @
        (if fst (pin_module os) \<and> create_thread os \<noteq> 0 then []
         else concat (map (\<lambda>p. plugin_inits os (d @ PLUGINDIR @ p)) (discovered os d)))
    \<and> loader_init_thread_handle (DllMain os hModule DLL_PROCESS_ATTACH s) =
        (if fst (pin_module os) then create_thread os else loader_init_thread_handle s)"
  using assms(3)
  by (simp add: DllMain_attach Let_def AsiLoad_status [OF assms(1,2)] AsiLoad_inits [OF assms(1,2)]
        AsiLoad_handle)

lemma process_run_invoked:
  assumes "host_dir os = Some d" and "fits os d"
  shows "invoked (trace (process_run os hModule)) =
     (if call_patch os (fst (module_handle os) + 0x5C489) (addr_WaitForPlugins os)
      then concat (map (\<lambda>p. plugin_inits os (d @ PLUGINDIR @ p)) (discovered os d)) else [])"
proof -
  note attach = DllMain_attach_fits [OF assms, of initial_state hModule, simplified]
  show ?thesis
    unfolding process_run_def Let_def
    by (simp add: attach WaitForPlugins_invoked AsiLoad_invoked DllMain_invoked
          AsiLoad_status [OF assms] AsiLoad_inits [OF assms])
qed

subsection \<open>Changing one answer of the operating system\<close>

lemma create_thread_update [simp]:
  "host_dir (os\<lparr>create_thread := h\<rparr>) = host_dir os"
  "fits (os\<lparr>create_thread := h\<rparr>) d = fits os d"
  "discovered (os\<lparr>create_thread := h\<rparr>) d = discovered os d"
  "plugin_events (os\<lparr>create_thread := h\<rparr>) f = plugin_events os f"
  "plugin_inits (os\<lparr>create_thread := h\<rparr>) f = plugin_inits os f"
  by (simp_all add: host_dir_def fits_def discovered_def plugin_events_def plugin_inits_def)

lemma find_files_update [simp]:
  "host_dir (os\<lparr>find_files := f\<rparr>) = host_dir os"
  "plugin_events (os\<lparr>find_files := f\<rparr>) p = plugin_events os p"
  "plugin_inits (os\<lparr>find_files := f\<rparr>) p = plugin_inits os p"
  by (simp_all add: host_dir_def plugin_events_def plugin_inits_def)

lemma find_files_none [simp]:
  "filter accepts (find_files (os\<lparr>find_files := \<lambda>p. []\<rparr>) p) = []"
  by simp

lemma load_library_update [simp]:
  "host_dir (os\<lparr>load_library := f\<rparr>) = host_dir os"
  "fits (os\<lparr>load_library := f\<rparr>) d = fits os d"
  "discovered (os\<lparr>load_library := f\<rparr>) d = discovered os d"
  by (simp_all add: host_dir_def fits_def discovered_def)

subsection \<open>The example installation\<close>

lemma host_dir_example: "host_dir example_os = Some host_folder"
  by (simp add: host_dir_def example_os_def host_folder_def L_def MAX_PATH_def)

lemma accepts_example:
  "filter accepts example_files =
     [\<lparr>dwFileAttributes = 0x20, cFileName = L ''a.asi''\<rparr>,
      \<lparr>dwFileAttributes = 0x20, cFileName = L ''B.asi''\<rparr>,
      \<lparr>dwFileAttributes = 0x20, cFileName = L ''broken.asi''\<rparr>]"
  by (simp add: example_files_def accepts_def FILE_ATTRIBUTE_DIRECTORY_def PLUGINFILTER_def
        L_def towupper_def)

lemma find_files_example: "find_files example_os (search_pattern host_folder) = example_files"
  by (simp add: example_os_def)

lemma discovered_example:
  "discovered example_os host_folder = [L ''B.asi'', L ''a.asi'', L ''broken.asi'']"
  by (simp add: discovered_def find_files_example accepts_example sorted_list_of_set_sort_remdups L_def)

lemma fits_example: "fits example_os host_folder"
  unfolding fits_def find_files_example
  by (simp add: example_files_def filename_size_def MAX_PATH_def PLUGINDIR_def PLUGINFILTER_def
        host_folder_def L_def)

lemma load_library_example:
  "load_library example_os (host_folder @ PLUGINDIR @ L ''a.asi'') = (0x10000000, 0)"
  "load_library example_os (host_folder @ PLUGINDIR @ L ''B.asi'') = (0x20000000, 0)"
  "load_library example_os (host_folder @ PLUGINDIR @ L ''broken.asi'') = (0, 126)"
  by (simp_all add: example_os_def plugin_folder_def L_def)

lemma proc_address_example:
  "proc_address example_os 0x10000000 = 0x10001000"
  "proc_address example_os 0x20000000 = 0x20001000"
  by (simp_all add: example_os_def)

lemma plugin_inits_example:
  "plugin_inits example_os (host_folder @ PLUGINDIR @ L ''a.asi'') = [0x10001000]"
  "plugin_inits example_os (host_folder @ PLUGINDIR @ L ''B.asi'') = [0x20001000]"
  "plugin_inits example_os (host_folder @ PLUGINDIR @ L ''broken.asi'') = []"
  by (simp_all add: plugin_inits_def load_library_example proc_address_example)

lemma plugin_events_example:
  "plugin_events example_os (host_folder @ PLUGINDIR @ L ''a.asi'') =
     [LoadLibrary (host_folder @ PLUGINDIR @ L ''a.asi'')]"
  "plugin_events example_os (host_folder @ PLUGINDIR @ L ''B.asi'') =
     [LoadLibrary (host_folder @ PLUGINDIR @ L ''B.asi'')]"
  "plugin_events example_os (host_folder @ PLUGINDIR @ L ''broken.asi'') =
     [LoadLibrary (host_folder @ PLUGINDIR @ L ''broken.asi''),
      load_failed_box (host_folder @ PLUGINDIR @ L ''broken.asi'') 126]"
  by (simp_all add: plugin_events_def load_library_example)

lemma example_os_fields:
  "module_handle example_os = (0x400000, 0)"
  "call_patch example_os a t"
  "pin_module example_os = (True, 0x30000000)"
  "create_thread example_os = 0x77"
  "wait_status example_os h = (WAIT_OBJECT_0, 0)"
  "addr_AsiLoad example_os = 0x30001000"
  "addr_WaitForPlugins example_os = 0x30002000"
  by (simp_all add: example_os_def)

lemma AsiLoad_example_inits:
  "initialise_vectors (AsiLoad example_os 0 initial_state) = [0x20001000, 0x10001000]"
  by (simp add: AsiLoad_fits [OF host_dir_example fits_example] discovered_example
        plugin_inits_example initial_state_def)

lemma AsiLoad_example_trace:
  "trace (AsiLoad example_os 0 initial_state) =
     [FindFirstFile (search_pattern host_folder), FindClose,
      LoadLibrary (host_folder @ PLUGINDIR @ L ''B.asi''),
      LoadLibrary (host_folder @ PLUGINDIR @ L ''a.asi''),
      LoadLibrary (host_folder @ PLUGINDIR @ L ''broken.asi''),
      load_failed_box (host_folder @ PLUGINDIR @ L ''broken.asi'') 126]"
  by (simp add: AsiLoad_fits [OF host_dir_example fits_example] discovered_example
        plugin_events_example find_files_example example_files_def)

lemma failing_os_facts:
  "host_dir failing_os = Some host_folder"
  "fits failing_os host_folder"
  "discovered failing_os host_folder = [L ''B.asi'', L ''a.asi'', L ''broken.asi'']"
  "find_files failing_os (search_pattern host_folder) \<noteq> []"
  "load_library failing_os (host_folder @ PLUGINDIR @ L ''a.asi'') = (0x10000000, 0)"
  "load_library failing_os (host_folder @ PLUGINDIR @ L ''B.asi'') = (0, 126)"
  "load_library failing_os (host_folder @ PLUGINDIR @ L ''broken.asi'') = (0, 126)"
  "proc_address failing_os 0x10000000 = 0x10001000"
  by (simp_all add: failing_os_def host_dir_example fits_example discovered_example
        find_files_example example_files_def proc_address_example plugin_folder_def L_def)

section \<open>Properties of the loader\<close>

subsection \<open>The order of the callbacks\<close>

text \<open>
  C1. The trigger is to invoke the callbacks in the case-insensitive ascending order of
  the file names, and the comment of the source above the loading loop says that the
  plugins are iterated alphabetically. The code does not keep to it: the names sit in a
  \<open>std::set<std::wstring>\<close> with the default comparison, which orders by code unit.
  In the example installation the trigger calls the callback of \<open>B.asi\<close> before the
  one of \<open>a.asi\<close>, whereas the case-insensitive order puts \<open>a.asi\<close> first.
\<close>

theorem callbacks_not_case_insensitive:
  "invoked (trace (WaitForPlugins example_os (AsiLoad example_os 0 initial_state))) =
     [0x20001000, 0x10001000]
   \<and> concat (map (\<lambda>p. plugin_inits example_os (host_folder @ PLUGINDIR @ p))
        (case_insensitive_order (discovered example_os host_folder))) = [0x10001000, 0x20001000]
   \<and> invoked (trace (WaitForPlugins example_os (AsiLoad example_os 0 initial_state))) \<noteq>
     concat (map (\<lambda>p. plugin_inits example_os (host_folder @ PLUGINDIR @ p))
        (case_insensitive_order (discovered example_os host_folder)))"
proof -
  have order: "case_insensitive_order (discovered example_os host_folder) =
      [L ''a.asi'', L ''B.asi'', L ''broken.asi'']"
    by (simp add: discovered_example case_insensitive_order_def L_def towupper_def)
  have run: "invoked (trace (WaitForPlugins example_os (AsiLoad example_os 0 initial_state))) =
     [0x20001000, 0x10001000]"
    by (simp add: WaitForPlugins_invoked AsiLoad_invoked AsiLoad_example_inits)
  show ?thesis
    unfolding order run by (simp add: plugin_inits_example)
qed

text \<open>
  What the code does, for every installation: after a run of \<open>AsiLoad\<close> that reaches
  the enumeration and in which the names fit, the trigger invokes the callbacks of the
  discovered names that load and export \<open>InitAsi\<close> in the order of the sorted
  duplicate-free list of the accepted names, where names compare code unit by code unit
  (an upper-case ASCII letter before every lower-case one).
\<close>

lemma callbacks_in_code_unit_order:
  assumes "host_dir os = Some d" and "fits os d"
  shows "invoked (trace (WaitForPlugins os (AsiLoad os hModule s))) =
           invoked (trace s) @ initialise_vectors s @
           concat (map (\<lambda>p. plugin_inits os (d @ PLUGINDIR @ p)) (discovered os d))
         \<and> sorted (discovered os d) \<and> distinct (discovered os d)
         \<and> set (discovered os d) =
             cFileName ` {ffd \<in> set (find_files os (search_pattern d)). accepts ffd}"
  by (simp add: WaitForPlugins_invoked AsiLoad_invoked AsiLoad_inits [OF assms] discovered_props)

lemma callbacks_in_code_unit_order_example:
  "invoked (trace (WaitForPlugins example_os (AsiLoad example_os 0 initial_state))) =
     [0x20001000, 0x10001000]
   \<and> discovered example_os host_folder = [L ''B.asi'', L ''a.asi'', L ''broken.asi'']
   \<and> L ''B.asi'' < L ''a.asi''"
  using callbacks_in_code_unit_order [OF host_dir_example fits_example, of 0 initial_state]
  by (simp add: discovered_example plugin_inits_example) (simp add: L_def)

subsection \<open>The order of the entry shim\<close>

text \<open>
  C2, as the specification words it: on process attach the module is pinned first, then
  the patch is installed, then the worker is started. In the example installation the
  trace of \<open>DllMain\<close> starts with the patch, and the pin does not come before it.
\<close>

theorem entry_shim_order_counterexample:
  "trace (DllMain example_os 0x30000000 DLL_PROCESS_ATTACH initial_state) =
     [CallPatch 0x45C489 0x30002000, GetModuleHandleExW 4 0x30001000, CreateThread 0x30001000 0x30000000]
   \<and> \<not> (first_index is_pin (trace (DllMain example_os 0x30000000 DLL_PROCESS_ATTACH initial_state))
          < first_index is_patch (trace (DllMain example_os 0x30000000 DLL_PROCESS_ATTACH initial_state)))"
  by (simp add: DllMain_attach Let_def example_os_def initial_state_def first_index_def is_pin_def
        is_patch_def GET_MODULE_HANDLE_EX_FLAG_FROM_ADDRESS_def)

text \<open>
  C2, amended. On process attach \<open>DllMain\<close> first installs the patch at offset
  \<open>0x5C489\<close> from the base of the host executable (with a dialog when that fails),
  then pins the loader module by a lookup of the address of \<open>AsiLoad\<close>, then, when
  the pin succeeded, creates the worker thread. These are all the steps of these three
  kinds in the trace of \<open>DllMain\<close>, and they stand at its beginning.
\<close>

theorem entry_shim_order:
  "entry_steps (trace (DllMain os hModule DLL_PROCESS_ATTACH s)) =
     entry_steps (trace s) @
     [CallPatch (fst (module_handle os) + 0x5C489) (addr_WaitForPlugins os),
      GetModuleHandleExW GET_MODULE_HANDLE_EX_FLAG_FROM_ADDRESS (addr_AsiLoad os)] @
     (if fst (pin_module os) then [CreateThread (addr_AsiLoad os) hModule] else [])
   \<and> (\<exists>rest. trace (DllMain os hModule DLL_PROCESS_ATTACH s) =
     trace s @
     CallPatch (fst (module_handle os) + 0x5C489) (addr_WaitForPlugins os) #
     (if call_patch os (fst (module_handle os) + 0x5C489) (addr_WaitForPlugins os)
      then [] else [patch_failed_box]) @
     GetModuleHandleExW GET_MODULE_HANDLE_EX_FLAG_FROM_ADDRESS (addr_AsiLoad os) #
     (if fst (pin_module os) then [CreateThread (addr_AsiLoad os) hModule] else []) @ rest)"
  using DllMain_entry_steps DllMain_prefix by blast

theorem entry_shim_order_witness:
  "entry_steps (trace (DllMain example_os 0x30000000 DLL_PROCESS_ATTACH initial_state)) =
     [CallPatch 0x45C489 0x30002000, GetModuleHandleExW 4 0x30001000, CreateThread 0x30001000 0x30000000]"
  using entry_shim_order [of example_os "0x30000000" initial_state]
  by (simp add: example_os_def initial_state_def GET_MODULE_HANDLE_EX_FLAG_FROM_ADDRESS_def)

subsection \<open>Strict discovery\<close>

text \<open>
  C3. Discovery keeps the name of an entry of the enumeration only if the entry is not a
  directory and \<open>PathMatchSpec\<close> matches its name against \<open>*.asi\<close>: these names are
  the set the loop builds, and every library \<open>AsiLoad\<close> loads is such a name behind the
  plugin directory. \<open>foo.asi.txt\<close> does not match, so it is never in the set and never
  loaded, whatever the enumeration returns.
\<close>

theorem discovery_is_strict:
  "set (find_loop ffds []) =
     cFileName ` {ffd \<in> set ffds. dwFileAttributes ffd AND FILE_ATTRIBUTE_DIRECTORY = 0 \<and>
                    PathMatchSpec (cFileName ffd) PLUGINFILTER}
   \<and> (LoadLibrary p \<in> set (trace (AsiLoad os hModule s)) \<longrightarrow>
        LoadLibrary p \<in> set (trace s) \<or>
        (\<exists>d. host_dir os = Some d \<and>
           (\<exists>ffd \<in> set (find_files os (search_pattern d)).
              dwFileAttributes ffd AND FILE_ATTRIBUTE_DIRECTORY = 0 \<and>
              PathMatchSpec (cFileName ffd) PLUGINFILTER \<and> p = d @ PLUGINDIR @ cFileName ffd)))
   \<and> \<not> PathMatchSpec (L ''foo.asi.txt'') PLUGINFILTER
   \<and> L ''foo.asi.txt'' \<notin> set (find_loop ffds [])
   \<and> (host_dir os = Some d \<and> LoadLibrary (d @ PLUGINDIR @ L ''foo.asi.txt'') \<notin> set (trace s) \<longrightarrow>
        LoadLibrary (d @ PLUGINDIR @ L ''foo.asi.txt'') \<notin> set (trace (AsiLoad os hModule s)))"
proof -
  have a: "L ''foo.asi.txt'' \<notin> set (find_loop ffds [])"
    unfolding set_find_loop_accepts using foo_asi_txt by auto
  have b: "LoadLibrary (d @ PLUGINDIR @ L ''foo.asi.txt'') \<notin> set (trace (AsiLoad os hModule s))"
    if "host_dir os = Some d" "LoadLibrary (d @ PLUGINDIR @ L ''foo.asi.txt'') \<notin> set (trace s)"
  proof
    assume "LoadLibrary (d @ PLUGINDIR @ L ''foo.asi.txt'') \<in> set (trace (AsiLoad os hModule s))"
    from AsiLoad_loads [OF this] that foo_asi_txt show False by auto
  qed
  show ?thesis
    using a b AsiLoad_loads [of p os hModule s] foo_asi_txt set_find_loop_accepts [of ffds]
    by blast
qed

theorem discovery_is_strict_witness:
  "set (find_loop example_files []) = {L ''a.asi'', L ''B.asi'', L ''broken.asi''}
   \<and> L ''foo.asi.txt'' \<notin> set (find_loop example_files [])
   \<and> LoadLibrary (host_folder @ PLUGINDIR @ L ''foo.asi.txt'') \<notin>
       set (trace (AsiLoad example_os 0 initial_state))
   \<and> LoadLibrary (host_folder @ PLUGINDIR @ L ''a.asi'') \<in>
       set (trace (AsiLoad example_os 0 initial_state))"
proof -
  have names: "set (find_loop example_files []) = {L ''a.asi'', L ''B.asi'', L ''broken.asi''}"
    by (simp add: set_find_loop accepts_example)
  have loaded: "LoadLibrary (host_folder @ PLUGINDIR @ L ''a.asi'') \<in>
       set (trace (AsiLoad example_os 0 initial_state))"
    by (simp add: AsiLoad_example_trace)
  note strict = discovery_is_strict [of example_files "host_folder @ PLUGINDIR @ L ''a.asi''" example_os 0
      initial_state host_folder]
  have foo: "L ''foo.asi.txt'' \<notin> set (find_loop example_files [])"
    by (rule strict [THEN conjunct2, THEN conjunct2, THEN conjunct2, THEN conjunct1])
  have nofoo: "LoadLibrary (host_folder @ PLUGINDIR @ L ''foo.asi.txt'') \<notin>
       set (trace (AsiLoad example_os 0 initial_state))"
    using strict [THEN conjunct2, THEN conjunct2, THEN conjunct2, THEN conjunct2] host_dir_example
    by simp
  show ?thesis
    using names foo nofoo loaded by (intro conjI)
qed

subsection \<open>An anomaly of the wait\<close>

text \<open>
  C4. When the wait on the worker returns a status other than \<open>WAIT_OBJECT_0\<close>, the
  trigger shows an error dialog and then calls every callback of the callback list, in
  the order of the list: after the wait, its trace is that dialog followed by one call for
  each entry of \<open>initialise_vectors\<close>.
\<close>

theorem wait_anomaly_fires_callbacks:
  assumes "loader_init_thread_handle s \<noteq> 0"
    and "fst (wait_status os (loader_init_thread_handle s)) \<noteq> WAIT_OBJECT_0"
  shows "trace (WaitForPlugins os s) =
           trace s @
           [WaitForSingleObject (loader_init_thread_handle s) INFINITE,
            wait_failed_box (fst (wait_status os (loader_init_thread_handle s)))
              (snd (wait_status os (loader_init_thread_handle s)))] @
           map InitAsi (initialise_vectors s)
         \<and> is_dialog (wait_failed_box (fst (wait_status os (loader_init_thread_handle s)))
              (snd (wait_status os (loader_init_thread_handle s))))"
  using assms by (simp add: WaitForPlugins_trace is_dialog_def wait_failed_box_def)

theorem wait_anomaly_fires_callbacks_witness:
  "trace (WaitForPlugins (example_os\<lparr>wait_status := \<lambda>h. (0xFFFFFFFF, 6)\<rparr>)
      (initial_state\<lparr>initialise_vectors := [0x20001000, 0x10001000],
                      loader_init_thread_handle := 0x77\<rparr>)) =
     [WaitForSingleObject 0x77 0xFFFFFFFF,
      MessageBoxA ''Failed to wait for asi loader thread (status code: ffffffff): 6''
        ''ASI Loader - Error'' 0,
      InitAsi 0x20001000, InitAsi 0x10001000]"
  using wait_anomaly_fires_callbacks [of
      "initial_state\<lparr>initialise_vectors := [0x20001000, 0x10001000], loader_init_thread_handle := 0x77\<rparr>"
      "example_os\<lparr>wait_status := \<lambda>h. (0xFFFFFFFF, 6)\<rparr>"]
  by (simp add: initial_state_def WAIT_OBJECT_0_def INFINITE_def wait_failed_box_def format_x_def
        to_string_def digits.simps digit_char_def MB_OK_def)

subsection \<open>A plugin that does not load\<close>

text \<open>
  C5. A plugin that \<open>LoadLibrary\<close> does not map costs one warning dialog, which names
  the file by its full path and the last error, adds no callback, and the loop goes on
  with the plugins that follow exactly as it would from the state with that dialog. So,
  when \<open>AsiLoad\<close> gets to the enumeration and the names fit, every discovered plugin is
  handed to \<open>LoadLibrary\<close> and the callback list gets the callbacks of all that load
  and export \<open>InitAsi\<close>, whichever others fail.
\<close>

theorem load_failure_is_reported_and_skipped:
  "(fst (load_library os (dir @ plugin)) = 0 \<and> length plugin < remainingLen \<longrightarrow>
      load_plugins os dir remainingLen (plugin # plugins) s =
        load_plugins os dir remainingLen plugins
          (emit [LoadLibrary (dir @ plugin),
                 MessageBoxW (L ''Cannot load plugin'' @ L [CHR 0x0A] @ (dir @ plugin) @
                              L [CHR 0x0A, CHR 0x0A] @ L ''Error Code '' @
                              L (printf_d (snd (load_library os (dir @ plugin)))) @ L ''.'')
                   (L ''ASI LOADER ERROR'')
                   (MB_ICONEXCLAMATION OR MB_OK OR MB_TOPMOST OR MB_SETFOREGROUND)] s))
   \<and> (host_dir os = Some d \<and> fits os d \<longrightarrow>
        trace (AsiLoad os hModule s) =
          trace s @ FindFirstFile (search_pattern d) #
          (if find_files os (search_pattern d) = [] then []
           else FindClose # concat (map (\<lambda>p. plugin_events os (d @ PLUGINDIR @ p)) (discovered os d)))
        \<and> initialise_vectors (AsiLoad os hModule s) =
            initialise_vectors s @
            concat (map (\<lambda>p. plugin_inits os (d @ PLUGINDIR @ p)) (discovered os d))
        \<and> status (AsiLoad os hModule s) = status s)
   \<and> (fst (load_library os filename) = 0 \<longrightarrow>
        plugin_events os filename =
          [LoadLibrary filename,
           MessageBoxW (L ''Cannot load plugin'' @ L [CHR 0x0A] @ filename @
                        L [CHR 0x0A, CHR 0x0A] @ L ''Error Code '' @
                        L (printf_d (snd (load_library os filename))) @ L ''.'')
             (L ''ASI LOADER ERROR'')
             (MB_ICONEXCLAMATION OR MB_OK OR MB_TOPMOST OR MB_SETFOREGROUND)]
        \<and> plugin_inits os filename = [])
   \<and> (fst (load_library os filename) \<noteq> 0 \<longrightarrow> plugin_events os filename = [LoadLibrary filename])"
proof -
  have step: "load_plugins os dir remainingLen (plugin # plugins) s =
        load_plugins os dir remainingLen plugins
          (emit [LoadLibrary (dir @ plugin),
                 MessageBoxW (L ''Cannot load plugin'' @ L [CHR 0x0A] @ (dir @ plugin) @
                              L [CHR 0x0A, CHR 0x0A] @ L ''Error Code '' @
                              L (printf_d (snd (load_library os (dir @ plugin)))) @ L ''.'')
                   (L ''ASI LOADER ERROR'')
                   (MB_ICONEXCLAMATION OR MB_OK OR MB_TOPMOST OR MB_SETFOREGROUND)] s)"
    if "fst (load_library os (dir @ plugin)) = 0" "length plugin < remainingLen"
    using load_plugins_failure [OF that] by (simp only: load_failed_box_def)
  have whole: "trace (AsiLoad os hModule s) =
          trace s @ FindFirstFile (search_pattern d) #
          (if find_files os (search_pattern d) = [] then []
           else FindClose # concat (map (\<lambda>p. plugin_events os (d @ PLUGINDIR @ p)) (discovered os d)))
        \<and> initialise_vectors (AsiLoad os hModule s) =
            initialise_vectors s @
            concat (map (\<lambda>p. plugin_inits os (d @ PLUGINDIR @ p)) (discovered os d))
        \<and> status (AsiLoad os hModule s) = status s"
    if "host_dir os = Some d" "fits os d"
    by (simp add: AsiLoad_fits [OF that])
  have events: "plugin_events os filename =
          [LoadLibrary filename,
           MessageBoxW (L ''Cannot load plugin'' @ L [CHR 0x0A] @ filename @
                        L [CHR 0x0A, CHR 0x0A] @ L ''Error Code '' @
                        L (printf_d (snd (load_library os filename))) @ L ''.'')
             (L ''ASI LOADER ERROR'')
             (MB_ICONEXCLAMATION OR MB_OK OR MB_TOPMOST OR MB_SETFOREGROUND)]
        \<and> plugin_inits os filename = []"
    if "fst (load_library os filename) = 0"
    using that by (simp add: plugin_events_def plugin_inits_def load_failed_box_def)
  have ok: "plugin_events os filename = [LoadLibrary filename]"
    if "fst (load_library os filename) \<noteq> 0"
    using that by (simp add: plugin_events_def)
  show ?thesis
  proof (intro conjI impI)
    assume "fst (load_library os (dir @ plugin)) = 0 \<and> length plugin < remainingLen"
    then show "load_plugins os dir remainingLen (plugin # plugins) s =
        load_plugins os dir remainingLen plugins
          (emit [LoadLibrary (dir @ plugin),
                 MessageBoxW (L ''Cannot load plugin'' @ L [CHR 0x0A] @ (dir @ plugin) @
                              L [CHR 0x0A, CHR 0x0A] @ L ''Error Code '' @
                              L (printf_d (snd (load_library os (dir @ plugin)))) @ L ''.'')
                   (L ''ASI LOADER ERROR'')
                   (MB_ICONEXCLAMATION OR MB_OK OR MB_TOPMOST OR MB_SETFOREGROUND)] s)"
      by (elim conjE) (rule step)
  next
    assume h: "host_dir os = Some d \<and> fits os d"
    then have w: "trace (AsiLoad os hModule s) =
          trace s @ FindFirstFile (search_pattern d) #
          (if find_files os (search_pattern d) = [] then []
           else FindClose # concat (map (\<lambda>p. plugin_events os (d @ PLUGINDIR @ p)) (discovered os d)))
        \<and> initialise_vectors (AsiLoad os hModule s) =
            initialise_vectors s @
            concat (map (\<lambda>p. plugin_inits os (d @ PLUGINDIR @ p)) (discovered os d))
        \<and> status (AsiLoad os hModule s) = status s"
      by (elim conjE) (rule whole)
    from w show "trace (AsiLoad os hModule s) =
          trace s @ FindFirstFile (search_pattern d) #
          (if find_files os (search_pattern d) = [] then []
           else FindClose # concat (map (\<lambda>p. plugin_events os (d @ PLUGINDIR @ p)) (discovered os d)))"
      by (rule conjunct1)
    from w show "initialise_vectors (AsiLoad os hModule s) =
            initialise_vectors s @
            concat (map (\<lambda>p. plugin_inits os (d @ PLUGINDIR @ p)) (discovered os d))"
      by (rule conjunct2 [THEN conjunct1])
    from w show "status (AsiLoad os hModule s) = status s"
      by (rule conjunct2 [THEN conjunct2])
  next
    assume f: "fst (load_library os filename) = 0"
    from events [OF f] show "plugin_events os filename =
          [LoadLibrary filename,
           MessageBoxW (L ''Cannot load plugin'' @ L [CHR 0x0A] @ filename @
                        L [CHR 0x0A, CHR 0x0A] @ L ''Error Code '' @
                        L (printf_d (snd (load_library os filename))) @ L ''.'')
             (L ''ASI LOADER ERROR'')
             (MB_ICONEXCLAMATION OR MB_OK OR MB_TOPMOST OR MB_SETFOREGROUND)]"
      by (rule conjunct1)
    from events [OF f] show "plugin_inits os filename = []"
      by (rule conjunct2)
  next
    assume "fst (load_library os filename) \<noteq> 0"
    then show "plugin_events os filename = [LoadLibrary filename]"
      by (rule ok)
  qed
qed

theorem load_failure_is_reported_and_skipped_witness:
  "trace (AsiLoad failing_os 0 initial_state) =
     [FindFirstFile (search_pattern host_folder), FindClose,
      LoadLibrary (host_folder @ PLUGINDIR @ L ''B.asi''),
      MessageBoxW (L ''Cannot load plugin'' @ L [CHR 0x0A] @ host_folder @ PLUGINDIR @ L ''B.asi'' @
                   L [CHR 0x0A, CHR 0x0A] @ L ''Error Code '' @ L ''126'' @ L ''.'')
        (L ''ASI LOADER ERROR'') 0x50030,
      LoadLibrary (host_folder @ PLUGINDIR @ L ''a.asi''),
      LoadLibrary (host_folder @ PLUGINDIR @ L ''broken.asi''),
      MessageBoxW (L ''Cannot load plugin'' @ L [CHR 0x0A] @ host_folder @ PLUGINDIR @ L ''broken.asi'' @
                   L [CHR 0x0A, CHR 0x0A] @ L ''Error Code '' @ L ''126'' @ L ''.'')
        (L ''ASI LOADER ERROR'') 0x50030]
   \<and> initialise_vectors (AsiLoad failing_os 0 initial_state) = [0x10001000]"
proof -
  have code126: "printf_d 126 = ''126''"
    by (simp add: printf_d_def digits.simps digit_char_def)
  have flags: "MB_ICONEXCLAMATION OR MB_OK OR MB_TOPMOST OR MB_SETFOREGROUND = 0x50030"
    by (simp add: MB_ICONEXCLAMATION_def MB_OK_def MB_TOPMOST_def MB_SETFOREGROUND_def)
  have boot: "host_dir failing_os = Some host_folder \<and> fits failing_os host_folder"
    by (simp add: failing_os_facts)
  from load_failure_is_reported_and_skipped [where os = failing_os and d = host_folder and hModule = 0
      and s = initial_state, THEN conjunct2, THEN conjunct1] boot
  have "trace (AsiLoad failing_os 0 initial_state) =
          trace initial_state @ FindFirstFile (search_pattern host_folder) #
          (if find_files failing_os (search_pattern host_folder) = [] then []
           else FindClose # concat (map (\<lambda>p. plugin_events failing_os (host_folder @ PLUGINDIR @ p))
             (discovered failing_os host_folder)))
        \<and> initialise_vectors (AsiLoad failing_os 0 initial_state) =
            initialise_vectors initial_state @
            concat (map (\<lambda>p. plugin_inits failing_os (host_folder @ PLUGINDIR @ p))
              (discovered failing_os host_folder))"
    by (elim impE) (assumption, simp)
  then show ?thesis
    by (simp add: failing_os_facts plugin_events_def plugin_inits_def load_failed_box_def
          code126 flags)
qed

subsection \<open>Worker creation fails\<close>

text \<open>
  C6. When the module is pinned and \<open>CreateThread\<close> returns \<open>NULL\<close>,
  \<open>DllMain\<close> shows no dialog for it: right after the call it runs \<open>AsiLoad\<close> itself,
  on the state it has reached, and returns after it (releasing the pinned module). So,
  when \<open>AsiLoad\<close> gets to the enumeration and the names fit, every discovered plugin
  has been handed to \<open>LoadLibrary\<close> and the callbacks of those that load and export
  \<open>InitAsi\<close> are in the callback list when \<open>DllMain\<close> returns.
\<close>

theorem degraded_mode_loads_synchronously:
  assumes "fst (pin_module os)" and "create_thread os = 0"
  shows "(\<exists>s4. trace s4 = trace s @
              CallPatch (fst (module_handle os) + 0x5C489) (addr_WaitForPlugins os) #
              (if call_patch os (fst (module_handle os) + 0x5C489) (addr_WaitForPlugins os)
               then [] else [patch_failed_box]) @
              [GetModuleHandleExW GET_MODULE_HANDLE_EX_FLAG_FROM_ADDRESS (addr_AsiLoad os),
               CreateThread (addr_AsiLoad os) hModule]
            \<and> initialise_vectors s4 = initialise_vectors s \<and> status s4 = status s
            \<and> DllMain os hModule DLL_PROCESS_ATTACH s =
                (if status (AsiLoad os 0 s4) = Running
                 then emit [FreeLibrary (snd (pin_module os))] (AsiLoad os 0 s4)
                 else AsiLoad os 0 s4))
         \<and> (host_dir os = Some d \<and> fits os d \<and> status s = Running \<longrightarrow>
              trace (DllMain os hModule DLL_PROCESS_ATTACH s) =
                trace s @
                CallPatch (fst (module_handle os) + 0x5C489) (addr_WaitForPlugins os) #
                (if call_patch os (fst (module_handle os) + 0x5C489) (addr_WaitForPlugins os)
                 then [] else [patch_failed_box]) @
                [GetModuleHandleExW GET_MODULE_HANDLE_EX_FLAG_FROM_ADDRESS (addr_AsiLoad os),
                 CreateThread (addr_AsiLoad os) hModule,
                 FindFirstFile (search_pattern d)] @
                (if find_files os (search_pattern d) = [] then []
                 else FindClose # concat (map (\<lambda>p. plugin_events os (d @ PLUGINDIR @ p)) (discovered os d))) @
                [FreeLibrary (snd (pin_module os))]
              \<and> initialise_vectors (DllMain os hModule DLL_PROCESS_ATTACH s) =
                  initialise_vectors s @
                  concat (map (\<lambda>p. plugin_inits os (d @ PLUGINDIR @ p)) (discovered os d))
              \<and> status (DllMain os hModule DLL_PROCESS_ATTACH s) = Running)"
proof -
  let ?s3 = "emit (CallPatch (fst (module_handle os) + 0x5C489) (addr_WaitForPlugins os) #
                  (if call_patch os (fst (module_handle os) + 0x5C489) (addr_WaitForPlugins os)
                   then [] else [patch_failed_box]) @
                  [GetModuleHandleExW GET_MODULE_HANDLE_EX_FLAG_FROM_ADDRESS (addr_AsiLoad os)]) s"
  let ?s4 = "(emit [CreateThread (addr_AsiLoad os) hModule] ?s3)\<lparr>loader_init_thread_handle := 0\<rparr>"
  have eq: "DllMain os hModule DLL_PROCESS_ATTACH s =
      (if status (AsiLoad os 0 ?s4) = Running
       then emit [FreeLibrary (snd (pin_module os))] (AsiLoad os 0 ?s4)
       else AsiLoad os 0 ?s4)"
    using assms by (simp add: DllMain_attach Let_def)
  have first: "\<exists>s4. trace s4 = trace s @
              CallPatch (fst (module_handle os) + 0x5C489) (addr_WaitForPlugins os) #
              (if call_patch os (fst (module_handle os) + 0x5C489) (addr_WaitForPlugins os)
               then [] else [patch_failed_box]) @
              [GetModuleHandleExW GET_MODULE_HANDLE_EX_FLAG_FROM_ADDRESS (addr_AsiLoad os),
               CreateThread (addr_AsiLoad os) hModule]
            \<and> initialise_vectors s4 = initialise_vectors s \<and> status s4 = status s
            \<and> DllMain os hModule DLL_PROCESS_ATTACH s =
                (if status (AsiLoad os 0 s4) = Running
                 then emit [FreeLibrary (snd (pin_module os))] (AsiLoad os 0 s4)
                 else AsiLoad os 0 s4)"
    by (rule exI [of _ ?s4]) (simp add: eq)
  have second: "trace (DllMain os hModule DLL_PROCESS_ATTACH s) =
                trace s @
                CallPatch (fst (module_handle os) + 0x5C489) (addr_WaitForPlugins os) #
                (if call_patch os (fst (module_handle os) + 0x5C489) (addr_WaitForPlugins os)
                 then [] else [patch_failed_box]) @
                [GetModuleHandleExW GET_MODULE_HANDLE_EX_FLAG_FROM_ADDRESS (addr_AsiLoad os),
                 CreateThread (addr_AsiLoad os) hModule,
                 FindFirstFile (search_pattern d)] @
                (if find_files os (search_pattern d) = [] then []
                 else FindClose # concat (map (\<lambda>p. plugin_events os (d @ PLUGINDIR @ p)) (discovered os d))) @
                [FreeLibrary (snd (pin_module os))]
              \<and> initialise_vectors (DllMain os hModule DLL_PROCESS_ATTACH s) =
                  initialise_vectors s @
                  concat (map (\<lambda>p. plugin_inits os (d @ PLUGINDIR @ p)) (discovered os d))
              \<and> status (DllMain os hModule DLL_PROCESS_ATTACH s) = Running"
    if h: "host_dir os = Some d" "fits os d" "status s = Running"
    unfolding eq by (simp add: AsiLoad_fits [OF h(1) h(2)] h(3))
  from first second show ?thesis by blast
qed

theorem degraded_mode_loads_synchronously_witness:
  "trace (DllMain (example_os\<lparr>create_thread := 0\<rparr>) 0x30000000 DLL_PROCESS_ATTACH initial_state) =
     [CallPatch 0x45C489 0x30002000, GetModuleHandleExW 4 0x30001000,
      CreateThread 0x30001000 0x30000000,
      FindFirstFile (search_pattern host_folder), FindClose,
      LoadLibrary (host_folder @ PLUGINDIR @ L ''B.asi''),
      LoadLibrary (host_folder @ PLUGINDIR @ L ''a.asi''),
      LoadLibrary (host_folder @ PLUGINDIR @ L ''broken.asi''),
      load_failed_box (host_folder @ PLUGINDIR @ L ''broken.asi'') 126,
      FreeLibrary 0x30000000]
   \<and> initialise_vectors (DllMain (example_os\<lparr>create_thread := 0\<rparr>) 0x30000000 DLL_PROCESS_ATTACH initial_state) =
       [0x20001000, 0x10001000]"
proof -
  have pin: "fst (pin_module (example_os\<lparr>create_thread := 0\<rparr>))"
    and thr: "create_thread (example_os\<lparr>create_thread := 0\<rparr>) = 0"
    by (simp_all add: example_os_def)
  have files: "find_files (example_os\<lparr>create_thread := 0\<rparr>) (search_pattern host_folder) \<noteq> []"
    by (simp add: find_files_example example_files_def)
  have init: "trace initial_state = []" "initialise_vectors initial_state = []"
    "status initial_state = Running"
    by (simp_all add: initial_state_def)
  show ?thesis
    using degraded_mode_loads_synchronously [OF pin thr, where hModule = "0x30000000" and s = initial_state and d = host_folder]
      host_dir_example fits_example files
    by (simp add: example_os_fields init discovered_example plugin_events_example plugin_inits_example
          GET_MODULE_HANDLE_EX_FLAG_FROM_ADDRESS_def)
qed

subsection \<open>Fatal bootstrap errors\<close>

text \<open>
  C7. If \<open>GetModuleHandle(NULL)\<close> returns \<open>NULL\<close> or \<open>GetModuleFileName\<close>
  stores no character, \<open>AsiLoad\<close> shows the error dialog of \<open>ERROR_BOX\<close> and calls
  \<open>ExitProcess\<close>; these two events are all it does: no enumeration, no library is
  loaded, and the callback list is unchanged.
\<close>

theorem fatal_bootstrap_error:
  assumes "fst (module_handle os) = 0 \<or> fst (module_file_name os (fst (module_handle os))) = []"
  shows "trace (AsiLoad os hModule s) =
           trace s @
           [MessageBoxW
              ((if fst (module_handle os) = 0 then L ''Cannot get module handle of your exe.''
                else L ''Cannot get file name of your exe.'') @
               L [CHR 0x0A, CHR 0x0A] @ L ''Error Code '' @
               L (printf_d (if fst (module_handle os) = 0 then snd (module_handle os)
                            else snd (module_file_name os (fst (module_handle os))))) @ L ''.'')
              (L ''ASI LOADER ERROR'') (MB_ICONERROR OR MB_TOPMOST OR MB_SETFOREGROUND),
            ExitProcess 0]
         \<and> status (AsiLoad os hModule s) = Exited
         \<and> initialise_vectors (AsiLoad os hModule s) = initialise_vectors s"
  using assms by (auto simp: AsiLoad_def Let_def split_beta ERROR_BOX_def)

theorem fatal_bootstrap_error_witness:
  "trace (AsiLoad (example_os\<lparr>module_file_name := \<lambda>h. ([], 5)\<rparr>) 0 initial_state) =
     [MessageBoxW (L ''Cannot get file name of your exe.'' @ L [CHR 0x0A, CHR 0x0A] @ L ''Error Code 5.'')
        (L ''ASI LOADER ERROR'') 0x50010,
      ExitProcess 0]
   \<and> status (AsiLoad (example_os\<lparr>module_file_name := \<lambda>h. ([], 5)\<rparr>) 0 initial_state) = Exited
   \<and> initialise_vectors (AsiLoad (example_os\<lparr>module_file_name := \<lambda>h. ([], 5)\<rparr>) 0 initial_state) = []"
  using fatal_bootstrap_error [of "example_os\<lparr>module_file_name := \<lambda>h. ([], 5)\<rparr>" 0 initial_state]
  by (simp add: example_os_def initial_state_def printf_d_def digits.simps digit_char_def L_def
        MB_ICONERROR_def MB_TOPMOST_def MB_SETFOREGROUND_def)

subsection \<open>Each callback once\<close>

text \<open>
  C8. One execution of the trigger calls the entries of the callback list, each once and
  in order, and leaves the list as it is; neither \<open>AsiLoad\<close> nor \<open>DllMain\<close> calls a
  callback. So in one life of the loader (\<open>process_run\<close>: attach, worker, the trigger
  once), when \<open>AsiLoad\<close> gets to the enumeration and the names fit, the calls are one
  for each discovered plugin that loads and exports \<open>InitAsi\<close>: the discovered names
  are distinct and each contributes at most one callback. (The trigger does not clear the
  list: \<open>second_firing_invokes_again\<close> shows what a host that executed the patched call
  twice would get.)
\<close>

theorem callbacks_invoked_once:
  "invoked (trace (WaitForPlugins os s)) = invoked (trace s) @ initialise_vectors s
   \<and> initialise_vectors (WaitForPlugins os s) = initialise_vectors s
   \<and> invoked (trace (AsiLoad os hModule s)) = invoked (trace s)
   \<and> invoked (trace (DllMain os hModule ul_reason_for_call s)) = invoked (trace s)
   \<and> (host_dir os = Some d \<and> fits os d \<longrightarrow>
        invoked (trace (process_run os hModule)) =
          (if call_patch os (fst (module_handle os) + 0x5C489) (addr_WaitForPlugins os)
           then concat (map (\<lambda>p. plugin_inits os (d @ PLUGINDIR @ p)) (discovered os d)) else [])
        \<and> distinct (discovered os d))
   \<and> length (plugin_inits os filename) \<le> 1"
  using process_run_invoked [of os d hModule] discovered_props [of os d]
    plugin_inits_length [of os filename]
  by (simp add: WaitForPlugins_invoked AsiLoad_invoked DllMain_invoked)

theorem callbacks_invoked_once_witness:
  "invoked (trace (process_run example_os 0x30000000)) = [0x20001000, 0x10001000]
   \<and> invoked (trace (process_run (example_os\<lparr>create_thread := 0\<rparr>) 0x30000000)) = [0x20001000, 0x10001000]"
  using callbacks_invoked_once [where os = example_os and d = host_folder and hModule = "0x30000000"]
    callbacks_invoked_once [where os = "example_os\<lparr>create_thread := 0\<rparr>" and d = host_folder
      and hModule = "0x30000000"]
  by (simp add: host_dir_example fits_example discovered_example plugin_inits_example example_os_fields)

subsection \<open>No plugins\<close>

text \<open>
  C9. When the enumeration fails (the plugin directory does not exist, or nothing in it
  matches the pattern) or returns no entry that discovery accepts, \<open>AsiLoad\<close> does
  nothing but enumerate: no dialog, no library loaded, the callback list and the status
  unchanged. With an empty callback list the trigger then runs to its end and invokes no
  callback.
\<close>

theorem no_plugins_no_callbacks:
  assumes "host_dir os = Some d"
    and "filter accepts (find_files os (search_pattern d)) = []"
  shows "trace (AsiLoad os hModule s) =
           trace s @ FindFirstFile (search_pattern d) #
           (if find_files os (search_pattern d) = [] then [] else [FindClose])
         \<and> initialise_vectors (AsiLoad os hModule s) = initialise_vectors s
         \<and> status (AsiLoad os hModule s) = status s
         \<and> (initialise_vectors s = [] \<longrightarrow>
              trace (WaitForPlugins os (AsiLoad os hModule s)) =
                trace (AsiLoad os hModule s) @
                (if loader_init_thread_handle s \<noteq> 0 then
                   WaitForSingleObject (loader_init_thread_handle s) INFINITE #
                   (if fst (wait_status os (loader_init_thread_handle s)) \<noteq> WAIT_OBJECT_0
                    then [wait_failed_box (fst (wait_status os (loader_init_thread_handle s)))
                            (snd (wait_status os (loader_init_thread_handle s)))]
                    else [])
                 else [not_initialized_box])
              \<and> invoked (trace (WaitForPlugins os (AsiLoad os hModule s))) = invoked (trace s))"
    (is "?A \<and> ?B \<and> ?C \<and> (?E \<longrightarrow> ?T \<and> ?I)")
proof -
  have load: "AsiLoad os hModule s =
      s\<lparr>initialise_vectors := initialise_vectors s @ [],
        trace := trace s @ FindFirstFile (search_pattern d) #
          (if find_files os (search_pattern d) = [] then [] else FindClose # [])\<rparr>"
    using AsiLoad_fits [OF assms(1) fits_none [OF assms(2)], of hModule s]
    by (simp add: discovered_none [OF assms(2)])
  have fields: "trace (AsiLoad os hModule s) =
           trace s @ FindFirstFile (search_pattern d) #
           (if find_files os (search_pattern d) = [] then [] else [FindClose])"
    "initialise_vectors (AsiLoad os hModule s) = initialise_vectors s"
    "status (AsiLoad os hModule s) = status s"
    by (simp_all add: load)
  have trigger: "trace (WaitForPlugins os (AsiLoad os hModule s)) =
                trace (AsiLoad os hModule s) @
                (if loader_init_thread_handle s \<noteq> 0 then
                   WaitForSingleObject (loader_init_thread_handle s) INFINITE #
                   (if fst (wait_status os (loader_init_thread_handle s)) \<noteq> WAIT_OBJECT_0
                    then [wait_failed_box (fst (wait_status os (loader_init_thread_handle s)))
                            (snd (wait_status os (loader_init_thread_handle s)))]
                    else [])
                 else [not_initialized_box])
              \<and> invoked (trace (WaitForPlugins os (AsiLoad os hModule s))) = invoked (trace s)"
    if "initialise_vectors s = []"
    using that
    by (simp add: WaitForPlugins_trace [of os "AsiLoad os hModule s"] AsiLoad_handle fields(2)
          WaitForPlugins_invoked AsiLoad_invoked)
  show ?thesis
  proof (intro conjI impI)
    assume e: ?E
    from trigger [OF e] show ?T by (rule conjunct1)
    from trigger [OF e] show ?I by (rule conjunct2)
  qed (rule fields)+
qed

theorem no_plugins_no_callbacks_witness:
  "trace (AsiLoad (example_os\<lparr>find_files := \<lambda>p. []\<rparr>) 0
         (initial_state\<lparr>loader_init_thread_handle := 0x77\<rparr>)) =
     [FindFirstFile (search_pattern host_folder)]
   \<and> initialise_vectors (AsiLoad (example_os\<lparr>find_files := \<lambda>p. []\<rparr>) 0
         (initial_state\<lparr>loader_init_thread_handle := 0x77\<rparr>)) = []
   \<and> trace (WaitForPlugins (example_os\<lparr>find_files := \<lambda>p. []\<rparr>)
      (AsiLoad (example_os\<lparr>find_files := \<lambda>p. []\<rparr>) 0
         (initial_state\<lparr>loader_init_thread_handle := 0x77\<rparr>))) =
     [FindFirstFile (search_pattern host_folder), WaitForSingleObject 0x77 INFINITE]"
proof -
  have boot: "host_dir (example_os\<lparr>find_files := \<lambda>p. []\<rparr>) = Some host_folder"
    by (simp add: host_dir_example)
  have none: "filter accepts (find_files (example_os\<lparr>find_files := \<lambda>p. []\<rparr>)
      (search_pattern host_folder)) = []"
    by simp
  show ?thesis
    using no_plugins_no_callbacks [OF boot none, of 0 "initial_state\<lparr>loader_init_thread_handle := 0x77\<rparr>"]
    by (simp add: example_os_fields)
qed

subsection \<open>The trigger with a null worker handle\<close>

text \<open>
  C10. With a null worker handle the trigger shows the dialog "asi loader thread failed to
  correctly initialize" before it calls the callbacks. The trigger always leaves the handle
  null, so a second execution takes this path; and the handle is null when \<open>DllMain\<close>
  could not create the worker and loaded the plugins itself.
\<close>

theorem null_handle_dialog:
  "(loader_init_thread_handle s = 0 \<longrightarrow>
      trace (WaitForPlugins os s) = trace s @ not_initialized_box # map InitAsi (initialise_vectors s))
   \<and> loader_init_thread_handle (WaitForPlugins os s) = 0
   \<and> trace (WaitForPlugins os (WaitForPlugins os s)) =
       trace (WaitForPlugins os s) @ not_initialized_box # map InitAsi (initialise_vectors s)
   \<and> (fst (pin_module os) \<and> create_thread os = 0 \<longrightarrow>
        loader_init_thread_handle (DllMain os hModule DLL_PROCESS_ATTACH s) = 0)
   \<and> not_initialized_box =
       MessageBoxA ''asi loader thread failed to correctly initialize'' ''ASI Loader - Error'' MB_OK"
proof -
  have "trace (WaitForPlugins os (WaitForPlugins os s)) =
       trace (WaitForPlugins os s) @ not_initialized_box # map InitAsi (initialise_vectors s)"
    by (simp add: WaitForPlugins_trace [of os "WaitForPlugins os s"])
  then show ?thesis
    by (simp add: WaitForPlugins_trace DllMain_degraded_handle not_initialized_box_def)
qed

theorem null_handle_dialog_witness:
  "loader_init_thread_handle
     (DllMain (example_os\<lparr>create_thread := 0\<rparr>) 0x30000000 DLL_PROCESS_ATTACH initial_state) = 0
   \<and> trace (WaitForPlugins (example_os\<lparr>create_thread := 0\<rparr>)
        (initial_state\<lparr>initialise_vectors := [0x20001000, 0x10001000]\<rparr>)) =
       [MessageBoxA ''asi loader thread failed to correctly initialize'' ''ASI Loader - Error'' 0,
        InitAsi 0x20001000, InitAsi 0x10001000]"
  using null_handle_dialog [of initial_state "example_os\<lparr>create_thread := 0\<rparr>" "0x30000000"]
    null_handle_dialog [of "initial_state\<lparr>initialise_vectors := [0x20001000, 0x10001000]\<rparr>"
      "example_os\<lparr>create_thread := 0\<rparr>" 0]
  by (simp add: example_os_fields MB_OK_def)

end
